theory Spec2Isabelle
  imports Main "HOL-Library.Word"
begin

section \<open>JavaScript values used by the printer bridge\<close>

text \<open>
  A JavaScript string is a sequence of UTF-16 code units. String literals of the source
  are written \<open>js ''...''\<close>.
\<close>

type_synonym jsstring = "16 word list"

definition js :: "string \<Rightarrow> jsstring" where
  "js s = map of_char s"

text \<open>
  \<open>String.prototype.trim\<close> removes the code units of the ECMAScript productions
  WhiteSpace and LineTerminator from both ends.
\<close>

definition is_space :: "16 word \<Rightarrow> bool" where
  "is_space c \<longleftrightarrow>
     c \<in> {0x9, 0xA, 0xB, 0xC, 0xD, 0x20, 0xA0, 0x1680, 0x2028, 0x2029, 0x202F, 0x205F,
          0x3000, 0xFEFF}
     \<or> (0x2000 \<le> c \<and> c \<le> 0x200A)"

definition trimStart :: "jsstring \<Rightarrow> jsstring" where
  "trimStart s = dropWhile is_space s"

definition trim :: "jsstring \<Rightarrow> jsstring" where
  "trim s = rev (dropWhile is_space (rev (dropWhile is_space s)))"

text \<open>Decimal rendering of a non-negative integer, as a template literal inserts it.\<close>

fun decimal :: "nat \<Rightarrow> jsstring" where
  "decimal n =
     (if n < 10 then [of_nat (48 + n)] else decimal (n div 10) @ [of_nat (48 + n mod 10)])"

declare decimal.simps [simp del]

text \<open>
  An exception value. Only \<open>error.message\<close> is ever read by the source; the
  constructor records whether the runtime raised a \<open>TypeError\<close>.
\<close>

datatype js_error = Error jsstring | TypeError jsstring

fun message :: "js_error \<Rightarrow> jsstring" where
  "message (Error m) = m"
| "message (TypeError m) = m"

section \<open>Data model\<close>

text \<open>A printer as the OS enumeration reports it (\<open>getPrintersAsync\<close>).\<close>

record printer =
  name :: jsstring
  displayName :: jsstring
  description :: jsstring
  status :: int
  isDefault :: bool

text \<open>\<open>settings.selectedPrinter\<close> is \<open>null\<close> (\<open>None\<close>) or a string.\<close>

record settings =
  selectedPrinter :: "jsstring option"
  serverPort :: nat

type_synonym bytes = "8 word list"

text \<open>
  A file path \<open>path.join(dir, base)\<close> is kept as the pair of its directory and its
  base name. The file system holds the temporary directories: each existing directory
  maps its file names to their contents.
\<close>

type_synonym path = "jsstring \<times> jsstring"

type_synonym filesystem = "jsstring \<rightharpoonup> (jsstring \<rightharpoonup> bytes)"

record printOptions =
  opt_printer :: jsstring
  opt_copies :: "int option"

text \<open>The JSON body of a response: \<open>{ok: false, error}\<close> or \<open>{ok: true, printer}\<close>.\<close>

datatype body = ErrorBody jsstring | PrinterBody jsstring

text \<open>
  Every call the program makes to the outside world is appended to a trace, in
  program order: \<open>console.error\<close>, the settings write, the tray menu rebuild, a desktop
  notification, the printer enumeration, the HTTP fetch, the temporary directory and
  file operations, the print submission, the recursive removal and the HTTP response.
\<close>

datatype event =
    ConsoleError jsstring js_error
  | WriteSettings settings
  | SetContextMenu
  | ShowNotification jsstring
  | GetPrinters
  | Fetch jsstring
  | MkdTemp
  | WriteFile path bytes
  | Print path printOptions
  | Rm jsstring
  | Respond nat body

text \<open>
  The module-level variables of \<open>main.js\<close> that the core reads or writes, the
  temporary directories on disk, and the trace. \<open>hiddenWindow\<close> and \<open>tray\<close> record
  whether the variable is non-null.
\<close>

record state =
  printers :: "printer list"
  settings :: settings
  hiddenWindow :: bool
  tray :: bool
  fs :: filesystem
  trace :: "event list"

text \<open>A response of the fetch API: its status and what \<open>arrayBuffer()\<close> yields.\<close>

datatype fetch_response = FetchResponse (resp_status: nat) (arrayBuffer: "js_error + bytes")

text \<open>\<open>response.ok\<close> of the Fetch standard: the status is in the range 200 to 299.\<close>

definition resp_ok :: "fetch_response \<Rightarrow> bool" where
  "resp_ok r \<longleftrightarrow> 200 \<le> resp_status r \<and> resp_status r \<le> 299"

text \<open>
  What the outside world answers during one operation. A failing capability gives the
  exception it raises (\<open>Inl\<close> or \<open>Some\<close>). \<open>fetchImpl\<close> is \<open>None\<close> when the runtime has
  no \<open>fetch\<close> function; otherwise it holds the outcome of calling it. \<open>mkdtemp_result\<close>
  is the directory the OS creates for the prefix it is given.
\<close>

record env =
  notificationSupported :: bool
  writeFileSync_result :: "js_error option"
  getPrintersAsync_result :: "js_error + printer list"
  fetchImpl :: "(js_error + fetch_response) option"
  mkdtemp_result :: "js_error + jsstring"
  writeFile_result :: "js_error option"
  print_result :: "js_error option"

definition emit :: "event \<Rightarrow> state \<Rightarrow> state" where
  "emit e st = st\<lparr>trace := trace st @ [e]\<rparr>"

text \<open>The events an operation added when it took \<open>st\<close> to \<open>st'\<close>.\<close>

definition new_events :: "state \<Rightarrow> state \<Rightarrow> event list" where
  "new_events st st' = drop (length (trace st)) (trace st')"

section \<open>Printer registry and discovery\<close>

definition notify :: "jsstring \<Rightarrow> env \<Rightarrow> state \<Rightarrow> state" where
  "notify body env st =
     (if \<not> notificationSupported env then st else emit (ShowNotification body) st)"

definition persistSettings :: "env \<Rightarrow> state \<Rightarrow> state" where
  "persistSettings env st =
     (let st1 = emit (WriteSettings (settings st)) st in
      case writeFileSync_result env of
        None \<Rightarrow> st1
      | Some error \<Rightarrow> emit (ConsoleError (js ''Failed to write settings:'') error) st1)"

definition getPrinterDisplayName :: "state \<Rightarrow> jsstring \<Rightarrow> jsstring" where
  "getPrinterDisplayName st printerName =
     (if printerName = [] then js ''Not selected''
      else case find (\<lambda>entry. name entry = printerName \<or> displayName entry = printerName)
                  (printers st) of
        None \<Rightarrow> printerName
      | Some p \<Rightarrow> (if displayName p \<noteq> [] then displayName p else name p))"

text \<open>
  \<open>updateTrayMenu\<close> rebuilds the context menu when a tray exists; the menu template is
  desktop-shell data and is not kept.
\<close>

definition updateTrayMenu :: "state \<Rightarrow> state" where
  "updateTrayMenu st = (if \<not> tray st then st else emit SetContextMenu st)"

definition setSelectedPrinter :: "jsstring \<Rightarrow> bool \<Rightarrow> bool \<Rightarrow> env \<Rightarrow> state \<Rightarrow> state" where
  "setSelectedPrinter printerName persist silent env st =
     (if printerName = [] \<or> selectedPrinter (settings st) = Some printerName then st
      else
        let st1 = st\<lparr>settings := (settings st)\<lparr>selectedPrinter := Some printerName\<rparr>\<rparr>;
            st2 = (if persist then persistSettings env st1 else st1);
            st3 = updateTrayMenu st2
        in if \<not> silent
           then notify (js ''Selected printer: '' @ getPrinterDisplayName st3 printerName) env st3
           else st3)"

text \<open>\<open>!settings.selectedPrinter\<close>: \<open>null\<close> and the empty string are falsy.\<close>

definition no_selection :: "state \<Rightarrow> bool" where
  "no_selection st \<longleftrightarrow>
     selectedPrinter (settings st) = None \<or> selectedPrinter (settings st) = Some []"

text \<open>\<open>printers.find((printer) => printer.isDefault) || printers[0]\<close> on a non-empty list.\<close>

fun preferred :: "printer list \<Rightarrow> printer option" where
  "preferred [] = None"
| "preferred (p # ps) = (case find isDefault (p # ps) of Some d \<Rightarrow> Some d | None \<Rightarrow> Some p)"

definition refreshPrinters :: "env \<Rightarrow> state \<Rightarrow> printer list \<times> state" where
  "refreshPrinters env st =
     (if \<not> hiddenWindow st then (printers st, st)
      else
        let st0 = emit GetPrinters st;
            st1 = (case getPrintersAsync_result env of
                     Inr ps \<Rightarrow>
                       (let s = st0\<lparr>printers := ps\<rparr> in
                        if no_selection s \<and> ps \<noteq> []
                        then case preferred ps of
                               Some p \<Rightarrow> setSelectedPrinter (name p) True True env s
                             | None \<Rightarrow> s
                        else s)
                   | Inl error \<Rightarrow> emit (ConsoleError (js ''Failed to fetch printers'') error) st0);
            st2 = updateTrayMenu st1;
            st3 = notify (js ''Refreshed printers'') env st2
        in (printers st3, st3))"

section \<open>Request values\<close>

text \<open>
  A field of the parsed JSON body. A number is carried by the string that
  \<open>Number::toString\<close> gives for it (the rendering itself is floating-point). An array
  or object is carried by the outcome of its conversion to a string: \<open>Some s\<close> when the
  conversion gives \<open>s\<close> (\<open>[object Object]\<close> for a plain object, the joined elements for
  an array), \<open>None\<close> when it raises a \<open>TypeError\<close>, as for the body value
  \<open>{"toString": 1}\<close>, whose own \<open>toString\<close> is not callable and whose inherited
  \<open>valueOf\<close> returns the object. \<open>JUndefined\<close> is an absent field.
\<close>

datatype jsval =
    JUndefined
  | JNull
  | JBool bool
  | JNum jsstring
  | JStr jsstring
  | JObject "jsstring option"

text \<open>JavaScript truthiness: \<open>0\<close>, \<open>-0\<close> (both rendered \<open>0\<close>), \<open>NaN\<close> and \<open>''\<close> are falsy.\<close>

fun truthy :: "jsval \<Rightarrow> bool" where
  "truthy JUndefined = False"
| "truthy JNull = False"
| "truthy (JBool b) = b"
| "truthy (JNum s) = (s \<noteq> js ''0'' \<and> s \<noteq> js ''NaN'')"
| "truthy (JStr s) = (s \<noteq> [])"
| "truthy (JObject s) = True"

fun is_string :: "jsval \<Rightarrow> bool" where
  "is_string (JStr s) = True"
| "is_string v = False"

text \<open>The abstract operation \<open>ToString\<close>: the string, or the exception it raises.\<close>

fun ToString :: "jsval \<Rightarrow> js_error + jsstring" where
  "ToString JUndefined = Inr (js ''undefined'')"
| "ToString JNull = Inr (js ''null'')"
| "ToString (JBool b) = Inr (if b then js ''true'' else js ''false'')"
| "ToString (JNum s) = Inr s"
| "ToString (JStr s) = Inr s"
| "ToString (JObject (Some s)) = Inr s"
| "ToString (JObject None) = Inl (TypeError (js ''Cannot convert object to primitive value''))"

text \<open>
  A number value as \<open>Number.parseInt\<close> can return it: \<open>NaN\<close>, an infinity, or a
  finite integer.
\<close>

datatype jsnum = NaN | PosInfinity | NegInfinity | Finite int

text \<open>
  The Number value of a positive mathematical integer: IEEE-754 binary64, round to
  nearest, ties to even. Integers of at most 53 bits are exact; a result of
  \<open>2 ^ 1024\<close> or more is an infinity.
\<close>

fun bitlen :: "nat \<Rightarrow> nat" where
  "bitlen n = (if n = 0 then 0 else Suc (bitlen (n div 2)))"

declare bitlen.simps [simp del]

definition round_binary64 :: "nat \<Rightarrow> nat option" where
  "round_binary64 m =
     (if bitlen m \<le> 53 then Some m
      else
        let e = bitlen m - 53;
            q = m div 2 ^ e;
            r = m mod 2 ^ e;
            half = 2 ^ (e - 1);
            q' = (if r > half \<or> (r = half \<and> odd q) then q + 1 else q);
            v = q' * 2 ^ e
        in if v \<ge> 2 ^ 1024 then None else Some v)"

definition is_digit :: "16 word \<Rightarrow> bool" where
  "is_digit c \<longleftrightarrow> 0x30 \<le> c \<and> c \<le> 0x39"

definition digits_value :: "jsstring \<Rightarrow> nat" where
  "digits_value z = foldl (\<lambda>acc c. 10 * acc + (unat c - 48)) 0 z"

text \<open>
  \<open>Number.parseInt(string, 10)\<close> on the string conversion of its argument: leading
  white space is skipped, one sign is read, and the longest run of decimal digits that
  follows is the value; no digit gives \<open>NaN\<close>.
\<close>

definition parseInt :: "jsstring \<Rightarrow> jsnum" where
  "parseInt inputString =
     (let s = trimStart inputString;
          negative = (s \<noteq> [] \<and> hd s = 0x2D);
          s' = (if s \<noteq> [] \<and> (hd s = 0x2B \<or> hd s = 0x2D) then tl s else s);
          z = takeWhile is_digit s'
      in if z = [] then NaN
         else case round_binary64 (digits_value z) of
                None \<Rightarrow> (if negative then NegInfinity else PosInfinity)
              | Some v \<Rightarrow> Finite (if negative then - int v else int v))"

text \<open>\<open>Number.parseInt(value, 10)\<close>: the argument is converted to a string first.\<close>

definition Number_parseInt :: "jsval \<Rightarrow> js_error + jsnum" where
  "Number_parseInt v = (case ToString v of Inl error \<Rightarrow> Inl error | Inr s \<Rightarrow> Inr (parseInt s))"

record request =
  url :: jsval
  printerName :: jsval
  copies :: jsval

section \<open>Document fetcher\<close>

text \<open>
  The download task: the file path and the directory that the \<open>cleanup\<close> closure
  captured.
\<close>

record download_task =
  filePath :: path
  tempDir :: jsstring

text \<open>
  \<open>fs.promises.rm(tempDir, {recursive: true, force: true})\<close>: the directory goes with
  everything in it, and a missing directory is not an error.
\<close>

definition cleanup :: "download_task \<Rightarrow> state \<Rightarrow> state" where
  "cleanup task st = (emit (Rm (tempDir task)) st)\<lparr>fs := (fs st)(tempDir task := None)\<rparr>"

definition downloadPdf :: "env \<Rightarrow> jsstring \<Rightarrow> state \<Rightarrow> (js_error + download_task) \<times> state" where
  "downloadPdf env fileUrl st =
     (case fetchImpl env of
        None \<Rightarrow> (Inl (Error (js ''Fetch API is not available in this version of Electron.'')), st)
      | Some fetched \<Rightarrow>
         (let st1 = emit (Fetch fileUrl) st in
          case fetched of
            Inl error \<Rightarrow> (Inl error, st1)
          | Inr response \<Rightarrow>
             (if \<not> resp_ok response
              then (Inl (Error (js ''Download failed: HTTP '' @ decimal (resp_status response))), st1)
              else
               (case arrayBuffer response of
                  Inl error \<Rightarrow> (Inl error, st1)
                | Inr buffer \<Rightarrow>
                   (if buffer = [] then (Inl (Error (js ''Downloaded file is empty.'')), st1)
                    else
                     (let st2 = emit MkdTemp st1 in
                      case mkdtemp_result env of
                        Inl error \<Rightarrow> (Inl error, st2)
                      | Inr dir \<Rightarrow>
                         (let st3 = st2\<lparr>fs := (fs st2)(dir \<mapsto> Map.empty)\<rparr>;
                              file = (dir, js ''document.pdf'');
                              st4 = emit (WriteFile file buffer) st3
                          in case writeFile_result env of
                               Some error \<Rightarrow> (Inl error, st4)
                             | None \<Rightarrow>
                                 (Inr \<lparr>filePath = file, tempDir = dir\<rparr>,
                                  st4\<lparr>fs := (fs st4)(dir \<mapsto> [js ''document.pdf'' \<mapsto> buffer])\<rparr>))))))))"

section \<open>Print dispatcher\<close>

definition ensurePrinterAvailable :: "env \<Rightarrow> jsstring \<Rightarrow> state \<Rightarrow> bool \<times> state" where
  "ensurePrinterAvailable env targetPrinter st =
     (if list_ex (\<lambda>p. name p = targetPrinter) (printers st) then (True, st)
      else
        let (ps, st1) = refreshPrinters env st
        in (list_ex (\<lambda>p. name p = targetPrinter) (printers st1), st1))"

text \<open>
  The regular expression \<open>/^https?:\/\//i\<close>. Without the \<open>u\<close> flag, case-insensitive
  matching never lets a code unit outside ASCII match an ASCII letter, so folding the
  letters \<open>A\<close> to \<open>Z\<close> is all the flag does here.
\<close>

definition fold_case :: "16 word \<Rightarrow> 16 word" where
  "fold_case c = (if 0x41 \<le> c \<and> c \<le> 0x5A then c + 0x20 else c)"

definition starts_with_ci :: "jsstring \<Rightarrow> jsstring \<Rightarrow> bool" where
  "starts_with_ci p s \<longleftrightarrow> map fold_case (take (length p) s) = p"

definition http_scheme :: "jsstring \<Rightarrow> bool" where
  "http_scheme s \<longleftrightarrow> starts_with_ci (js ''http://'') s \<or> starts_with_ci (js ''https://'') s"

text \<open>\<open>printerName || settings.selectedPrinter || ''\<close>\<close>

definition targetPrinter_value :: "request \<Rightarrow> state \<Rightarrow> jsval" where
  "targetPrinter_value req st =
     (if truthy (printerName req) then printerName req
      else case selectedPrinter (settings st) of
             None \<Rightarrow> JStr []
           | Some s \<Rightarrow> JStr s)"

text \<open>The \<open>copies\<close> option: present when \<open>Number.isFinite(copiesValue) && copiesValue > 0\<close>.\<close>

definition copies_option :: "jsnum \<Rightarrow> int option" where
  "copies_option copiesValue =
     (case copiesValue of
        Finite n \<Rightarrow> (if n > 0 then Some n else None)
      | _ \<Rightarrow> None)"

definition respond :: "nat \<Rightarrow> body \<Rightarrow> state \<Rightarrow> state" where
  "respond code b st = emit (Respond code b) st"

text \<open>The \<open>catch\<close> block of the \<open>/print\<close> handler.\<close>

definition print_failed :: "env \<Rightarrow> js_error \<Rightarrow> state \<Rightarrow> state" where
  "print_failed env error st =
     (let st1 = emit (ConsoleError (js ''Print job failed'') error) st;
          st2 = respond 500 (ErrorBody (message error)) st1
      in notify (js ''Print failed: '' @ message error) env st2)"

text \<open>
  The handler of \<open>POST /print\<close>. The result is \<open>Some e\<close> when the handler's promise
  rejects with \<open>e\<close> (the handler itself sends no response on that path; what the web
  framework does with the rejection is not part of the handler), \<open>None\<close> when it
  completes. Calling \<open>.trim()\<close> on a value that is not a string raises a \<open>TypeError\<close>,
  and so does \<open>Number.parseInt\<close> on a value whose string conversion raises; both stand
  outside the \<open>try\<close> block. The handler runs to its end without other requests in
  between.
\<close>

definition print_handler :: "env \<Rightarrow> request \<Rightarrow> state \<Rightarrow> js_error option \<times> state" where
  "print_handler env req st =
     (if \<not> truthy (url req) \<or> \<not> is_string (url req)
      then (None, respond 400 (ErrorBody (js ''Field \"url\" is required.'')) st)
      else case url req of
        JStr u \<Rightarrow>
         (let normalizedUrl = trim u in
          if \<not> http_scheme normalizedUrl
          then (None, respond 400 (ErrorBody (js ''Only http/https URLs are supported.'')) st)
          else
           (case targetPrinter_value req st of
              JStr s \<Rightarrow>
               (let targetPrinter = trim s in
                if targetPrinter = []
                then (None, respond 400 (ErrorBody (js ''No printer selected.'')) st)
                else
                  let (printerReady, st1) = ensurePrinterAvailable env targetPrinter st in
                  if \<not> printerReady
                  then (None, respond 404 (ErrorBody (js ''Selected printer is not available.'')) st1)
                  else
                   (case Number_parseInt (copies req) of
                      Inl error \<Rightarrow> (Some error, st1)
                    | Inr copiesValue \<Rightarrow>
                       (let options = \<lparr>opt_printer = targetPrinter,
                                       opt_copies = copies_option copiesValue\<rparr>;
                            (downloaded, st2) = downloadPdf env normalizedUrl st1
                        in case downloaded of
                             Inl error \<Rightarrow> (None, print_failed env error st2)
                           | Inr task \<Rightarrow>
                              (let st3 = emit (Print (filePath task) options) st2 in
                               case print_result env of
                                 None \<Rightarrow>
                                   (let st4 = respond 200 (PrinterBody targetPrinter) st3;
                                        st5 = notify (js ''Sent document to '' @ getPrinterDisplayName st4 targetPrinter) env st4
                                    in (None, cleanup task st5))
                               | Some error \<Rightarrow> (None, print_failed env error (cleanup task st3))))))
            | v \<Rightarrow> (Some (TypeError (js ''(printerName || settings.selectedPrinter || \"\").trim is not a function'')), st)))
      | v \<Rightarrow> (Some (TypeError (js ''url.trim is not a function'')), st))"

section \<open>Classifying events\<close>

text \<open>
  The events of the registry and discovery operations: logging, the settings write, the
  tray menu, notifications and the printer enumeration. The fetch, file, print and
  response events are the dispatcher's.
\<close>

fun registry_event :: "event \<Rightarrow> bool" where
  "registry_event (ConsoleError l e) = True"
| "registry_event (WriteSettings s) = True"
| "registry_event SetContextMenu = True"
| "registry_event (ShowNotification m) = True"
| "registry_event GetPrinters = True"
| "registry_event (Fetch u) = False"
| "registry_event MkdTemp = False"
| "registry_event (WriteFile p b) = False"
| "registry_event (Print p opts) = False"
| "registry_event (Rm d) = False"
| "registry_event (Respond c b) = False"

text \<open>The responses sent, in order.\<close>

fun responses :: "event list \<Rightarrow> (nat \<times> body) list" where
  "responses [] = []"
| "responses (Respond c b # es) = (c, b) # responses es"
| "responses (e # es) = responses es"

section \<open>Example configuration\<close>

text \<open>
  Two printers, a registry that knows them, and an outside world in which every
  capability succeeds: the fetch answers 200 with a four-byte body.
\<close>

definition office_printer :: printer where
  "office_printer =
     \<lparr>name = js ''Office-Printer'', displayName = js ''Office Printer'',
      description = js ''Laser'', status = 0, isDefault = False\<rparr>"

definition label_printer :: printer where
  "label_printer =
     \<lparr>name = js ''Label-Printer'', displayName = [],
      description = js ''Thermal'', status = 0, isDefault = True\<rparr>"

definition idle_state :: state where
  "idle_state =
     \<lparr>printers = [office_printer, label_printer],
      settings = \<lparr>selectedPrinter = None, serverPort = 3321\<rparr>,
      hiddenWindow = True, tray = True, fs = Map.empty, trace = []\<rparr>"

definition calm_env :: env where
  "calm_env =
     \<lparr>notificationSupported = True,
      writeFileSync_result = None,
      getPrintersAsync_result = Inr [office_printer, label_printer],
      fetchImpl = Some (Inr (FetchResponse 200 (Inr [0x25, 0x50, 0x44, 0x46]))),
      mkdtemp_result = Inr (js ''/tmp/printer-ws-Ab12Cd''),
      writeFile_result = None,
      print_result = None\<rparr>"

definition office_request :: request where
  "office_request =
     \<lparr>url = JStr (js ''https://example.com/a.pdf''),
      printerName = JStr (js ''Office-Printer''),
      copies = JNum (js ''2'')\<rparr>"

definition label_selected_state :: state where
  "label_selected_state =
     idle_state\<lparr>settings := \<lparr>selectedPrinter = Some (js ''Label-Printer''), serverPort = 3321\<rparr>\<rparr>"

definition label_only_state :: state where
  "label_only_state = idle_state\<lparr>printers := [label_printer]\<rparr>"

text \<open>A world in which writing the downloaded file fails, and one in which printing fails.\<close>

definition disk_full_env :: env where
  "disk_full_env =
     calm_env\<lparr>writeFile_result := Some (Error (js ''ENOSPC: no space left on device''))\<rparr>"

definition offline_env :: env where
  "offline_env = calm_env\<lparr>print_result := Some (Error (js ''Printer offline''))\<rparr>"

text \<open>The body \<open>{"url": ..., "printerName": "Office-Printer", "copies": {"toString": 1}}\<close>.\<close>

definition broken_copies_request :: request where
  "broken_copies_request = office_request\<lparr>copies := JObject None\<rparr>"

section \<open>Selection\<close>

lemmas example_defs = office_printer_def label_printer_def idle_state_def calm_env_def
  office_request_def

lemmas registry_defs = setSelectedPrinter_def persistSettings_def updateTrayMenu_def
  notify_def emit_def new_events_def

lemma notify_eq:
  "notify b env st =
     st\<lparr>trace := trace st @ (if notificationSupported env then [ShowNotification b] else [])\<rparr>"
  by (simp add: notify_def emit_def)

lemma updateTrayMenu_eq:
  "updateTrayMenu st = st\<lparr>trace := trace st @ (if tray st then [SetContextMenu] else [])\<rparr>"
  by (simp add: updateTrayMenu_def emit_def)

lemma persistSettings_eq:
  "persistSettings env st =
     st\<lparr>trace := trace st @ WriteSettings (settings st) #
        (case writeFileSync_result env of None \<Rightarrow> []
         | Some e \<Rightarrow> [ConsoleError (js ''Failed to write settings:'') e])\<rparr>"
  by (simp add: persistSettings_def emit_def Let_def split: option.splits)

lemma getPrinterDisplayName_cong:
  "printers s = printers t \<Longrightarrow> getPrinterDisplayName s n = getPrinterDisplayName t n"
  by (simp add: getPrinterDisplayName_def)

lemma setSelectedPrinter_noop:
  "n = [] \<or> selectedPrinter (settings st) = Some n \<Longrightarrow>
     setSelectedPrinter n persist silent env st = st"
  by (simp add: setSelectedPrinter_def)

lemma setSelectedPrinter_eq:
  assumes "n \<noteq> []" and "selectedPrinter (settings st) \<noteq> Some n"
  shows "setSelectedPrinter n persist silent env st =
     st\<lparr>settings := (settings st)\<lparr>selectedPrinter := Some n\<rparr>,
        trace := trace st
          @ (if persist
             then WriteSettings ((settings st)\<lparr>selectedPrinter := Some n\<rparr>) #
                  (case writeFileSync_result env of None \<Rightarrow> []
                   | Some e \<Rightarrow> [ConsoleError (js ''Failed to write settings:'') e])
             else [])
          @ (if tray st then [SetContextMenu] else [])
          @ (if \<not> silent \<and> notificationSupported env
             then [ShowNotification (js ''Selected printer: '' @ getPrinterDisplayName st n)]
             else [])\<rparr>"
  using assms
  by (simp add: setSelectedPrinter_def persistSettings_eq updateTrayMenu_eq notify_eq Let_def
      getPrinterDisplayName_def)


text \<open>
  C6. Selecting the empty name, or the name that is already selected, leaves the whole
  state as it was: the selection, the settings file (no write), the tray menu (no change
  event) and the notifications (none), so the operation adds no event at all. Any other
  non-empty name becomes the selection, and the settings holding it are written exactly
  when \<open>persist\<close> is requested.
\<close>

theorem setSelectedPrinter_contract:
  "(n = [] \<or> selectedPrinter (settings st) = Some n \<longrightarrow>
      setSelectedPrinter n persist silent env st = st
      \<and> new_events st (setSelectedPrinter n persist silent env st) = [])
   \<and> (n \<noteq> [] \<and> selectedPrinter (settings st) \<noteq> Some n \<longrightarrow>
      selectedPrinter (settings (setSelectedPrinter n persist silent env st)) = Some n
      \<and> (WriteSettings ((settings st)\<lparr>selectedPrinter := Some n\<rparr>)
            \<in> set (new_events st (setSelectedPrinter n persist silent env st)) \<longleftrightarrow> persist))"
  by (auto simp: registry_defs Let_def split: option.splits)

theorem setSelectedPrinter_contract_witness:
  "setSelectedPrinter [] True False calm_env idle_state = idle_state
   \<and> setSelectedPrinter (js ''Office-Printer'') True False calm_env
        (idle_state\<lparr>settings := \<lparr>selectedPrinter = Some (js ''Office-Printer''), serverPort = 3321\<rparr>\<rparr>)
      = idle_state\<lparr>settings := \<lparr>selectedPrinter = Some (js ''Office-Printer''), serverPort = 3321\<rparr>\<rparr>
   \<and> selectedPrinter (settings (setSelectedPrinter (js ''Office-Printer'') True False calm_env idle_state))
      = Some (js ''Office-Printer'')
   \<and> WriteSettings \<lparr>selectedPrinter = Some (js ''Office-Printer''), serverPort = 3321\<rparr>
        \<in> set (new_events idle_state (setSelectedPrinter (js ''Office-Printer'') True False calm_env idle_state))
   \<and> WriteSettings \<lparr>selectedPrinter = Some (js ''Office-Printer''), serverPort = 3321\<rparr>
        \<notin> set (new_events idle_state (setSelectedPrinter (js ''Office-Printer'') False False calm_env idle_state))"
  using setSelectedPrinter_contract [of "[]" idle_state True False calm_env]
    setSelectedPrinter_contract [of "js ''Office-Printer''"
      "idle_state\<lparr>settings := \<lparr>selectedPrinter = Some (js ''Office-Printer''), serverPort = 3321\<rparr>\<rparr>"
      True False calm_env]
    setSelectedPrinter_contract [of "js ''Office-Printer''" idle_state True False calm_env]
    setSelectedPrinter_contract [of "js ''Office-Printer''" idle_state False False calm_env]
  by (simp add: example_defs js_def)


section \<open>Discovery\<close>

lemma preferred_name:
  "ps \<noteq> [] \<Longrightarrow> preferred ps = Some (case find isDefault ps of Some d \<Rightarrow> d | None \<Rightarrow> hd ps)"
  by (cases ps) (auto split: option.splits)

lemma preferred_mem: "preferred ps = Some p \<Longrightarrow> p \<in> set ps"
proof (cases ps)
  case Nil
  assume "preferred ps = Some p"
  with Nil show ?thesis by simp
next
  case (Cons a as)
  assume "preferred ps = Some p"
  with Cons show ?thesis
    by (auto split: option.splits if_splits simp: find_Some_iff)
qed

lemma refreshPrinters_no_window:
  "\<not> hiddenWindow st \<Longrightarrow> refreshPrinters env st = (printers st, st)"
  by (simp add: refreshPrinters_def)

lemma refreshPrinters_failed:
  "hiddenWindow st \<Longrightarrow> getPrintersAsync_result env = Inl e \<Longrightarrow>
   refreshPrinters env st =
     (printers st,
      st\<lparr>trace := trace st @ [GetPrinters, ConsoleError (js ''Failed to fetch printers'') e]
         @ (if tray st then [SetContextMenu] else [])
         @ (if notificationSupported env then [ShowNotification (js ''Refreshed printers'')] else [])\<rparr>)"
  by (simp add: refreshPrinters_def updateTrayMenu_eq notify_eq emit_def Let_def)

lemma refreshPrinters_kept:
  "hiddenWindow st \<Longrightarrow> getPrintersAsync_result env = Inr ps \<Longrightarrow>
   \<not> (no_selection st \<and> ps \<noteq> []) \<Longrightarrow>
   refreshPrinters env st =
     (ps,
      st\<lparr>printers := ps,
         trace := trace st @ [GetPrinters]
         @ (if tray st then [SetContextMenu] else [])
         @ (if notificationSupported env then [ShowNotification (js ''Refreshed printers'')] else [])\<rparr>)"
  by (auto simp add: refreshPrinters_def updateTrayMenu_eq notify_eq emit_def Let_def no_selection_def)

lemma refreshPrinters_selected:
  assumes "hiddenWindow st" and "getPrintersAsync_result env = Inr ps"
    and "no_selection st" and "preferred ps = Some p" and "name p \<noteq> []"
  shows "refreshPrinters env st =
     (ps,
      st\<lparr>printers := ps,
         settings := (settings st)\<lparr>selectedPrinter := Some (name p)\<rparr>,
         trace := trace st @ [GetPrinters]
         @ WriteSettings ((settings st)\<lparr>selectedPrinter := Some (name p)\<rparr>) #
             (case writeFileSync_result env of None \<Rightarrow> []
              | Some e \<Rightarrow> [ConsoleError (js ''Failed to write settings:'') e])
         @ (if tray st then [SetContextMenu, SetContextMenu] else [])
         @ (if notificationSupported env then [ShowNotification (js ''Refreshed printers'')] else [])\<rparr>)"
proof -
  let ?s = "st\<lparr>trace := trace st @ [GetPrinters], printers := ps\<rparr>"
  from assms(4) have ne: "ps \<noteq> []" by auto
  have sel: "selectedPrinter (settings ?s) \<noteq> Some (name p)"
    using assms(3,5) by (auto simp: no_selection_def)
  have ns: "no_selection ?s" using assms(3) by (simp add: no_selection_def)
  have "refreshPrinters env st =
      (let st1 = setSelectedPrinter (name p) True True env ?s;
           st2 = updateTrayMenu st1; st3 = notify (js ''Refreshed printers'') env st2
       in (printers st3, st3))"
    using assms(1,2,4) ns ne by (simp add: refreshPrinters_def Let_def emit_def)
  then show ?thesis
    by (simp add: setSelectedPrinter_eq [OF assms(5) sel] updateTrayMenu_eq notify_eq Let_def)
qed

text \<open>
  C5. A refresh whose enumeration succeeds replaces the list. If no printer was selected
  and the new list is not empty, the first printer flagged as default, or the first
  entry when none is flagged, becomes the selection, and the settings holding it are
  written at once; the only notification of the refresh is the fixed text
  ``Refreshed printers'', none names the selection. Otherwise the selection stays as it
  was and nothing is written. Printer names reported by the OS are taken to be non-empty.
\<close>

theorem refreshPrinters_auto_select:
  assumes "hiddenWindow st"
    and "getPrintersAsync_result env = Inr ps"
    and "\<forall>p \<in> set ps. name p \<noteq> []"
    and "refreshPrinters env st = (result, st')"
  shows "result = ps \<and> printers st' = ps
    \<and> selectedPrinter (settings st') =
        (if no_selection st \<and> ps \<noteq> []
         then Some (name (case find isDefault ps of Some d \<Rightarrow> d | None \<Rightarrow> hd ps))
         else selectedPrinter (settings st))
    \<and> (WriteSettings (settings st') \<in> set (new_events st st') \<longleftrightarrow> no_selection st \<and> ps \<noteq> [])
    \<and> (\<forall>s. WriteSettings s \<in> set (new_events st st') \<longrightarrow> s = settings st')
    \<and> (\<forall>m. ShowNotification m \<in> set (new_events st st') \<longrightarrow> m = js ''Refreshed printers'')"
proof (cases "no_selection st \<and> ps \<noteq> []")
  case True
  then obtain p where p: "preferred ps = Some p"
    and pd: "(case find isDefault ps of Some d \<Rightarrow> d | None \<Rightarrow> hd ps) = p"
    using preferred_name by blast
  from p have "p \<in> set ps" by (rule preferred_mem)
  with assms(3) have ne: "name p \<noteq> []" by blast
  from True have ns: "no_selection st" by simp
  show ?thesis
    using refreshPrinters_selected [OF assms(1,2) ns p ne] assms(4) True pd
    by (auto simp: new_events_def split: option.splits)
next
  case False
  show ?thesis
    using refreshPrinters_kept [OF assms(1,2) False] assms(4) False
    by (auto simp: new_events_def)
qed

theorem refreshPrinters_auto_select_witness:
  "hiddenWindow idle_state
   \<and> getPrintersAsync_result calm_env = Inr [office_printer, label_printer]
   \<and> name office_printer \<noteq> [] \<and> name label_printer \<noteq> []
   \<and> no_selection idle_state
   \<and> printers (snd (refreshPrinters calm_env idle_state)) = [office_printer, label_printer]
   \<and> selectedPrinter (settings (snd (refreshPrinters calm_env idle_state))) = Some (js ''Label-Printer'')
   \<and> WriteSettings \<lparr>selectedPrinter = Some (js ''Label-Printer''), serverPort = 3321\<rparr>
        \<in> set (new_events idle_state (snd (refreshPrinters calm_env idle_state)))
   \<and> ShowNotification (js ''Refreshed printers'')
        \<in> set (new_events idle_state (snd (refreshPrinters calm_env idle_state)))"
  using refreshPrinters_auto_select [of idle_state calm_env "[office_printer, label_printer]"
      "fst (refreshPrinters calm_env idle_state)" "snd (refreshPrinters calm_env idle_state)"]
  by (simp add: example_defs js_def no_selection_def refreshPrinters_def registry_defs Let_def)

text \<open>
  C8. When the enumeration fails, the refresh returns the cached list, leaves the list
  and the settings (so the selection) as they were, and logs the failure. The list
  changes only when the enumeration succeeded, and then it is the enumerated list.
\<close>

theorem refreshPrinters_enumeration_failure:
  "(getPrintersAsync_result env = Inl e \<longrightarrow>
      fst (refreshPrinters env st) = printers st
      \<and> printers (snd (refreshPrinters env st)) = printers st
      \<and> settings (snd (refreshPrinters env st)) = settings st
      \<and> (hiddenWindow st \<longrightarrow>
            ConsoleError (js ''Failed to fetch printers'') e
              \<in> set (new_events st (snd (refreshPrinters env st)))))
   \<and> (printers (snd (refreshPrinters env st)) \<noteq> printers st \<longrightarrow>
        (\<exists>ps. getPrintersAsync_result env = Inr ps \<and> printers (snd (refreshPrinters env st)) = ps))"
proof (cases "hiddenWindow st")
  case False
  then show ?thesis by (simp add: refreshPrinters_no_window)
next
  case True
  show ?thesis
  proof (cases "getPrintersAsync_result env")
    case (Inl a)
    then show ?thesis using refreshPrinters_failed [OF True Inl]
      by (simp add: new_events_def)
  next
    case (Inr ps)
    obtain r s where rs: "refreshPrinters env st = (r, s)" by (cases "refreshPrinters env st")
    show ?thesis
    proof (cases "no_selection st \<and> ps \<noteq> []")
      case False
      then show ?thesis using refreshPrinters_kept [OF True Inr False] Inr by simp
    next
      case sel: True
      then obtain p where p: "preferred ps = Some p" using preferred_name by blast
      show ?thesis
      proof (cases "name p = []")
        case True
        then show ?thesis using Inr sel p \<open>hiddenWindow st\<close>
          by (simp add: refreshPrinters_def Let_def no_selection_def emit_def
              setSelectedPrinter_noop updateTrayMenu_eq notify_eq)
      next
        case False
        from sel have ns: "no_selection st" by simp
        show ?thesis using refreshPrinters_selected [OF \<open>hiddenWindow st\<close> Inr ns p False] Inr
          by simp
      qed
    qed
  qed
qed


theorem refreshPrinters_enumeration_failure_witness:
  "getPrintersAsync_result (calm_env\<lparr>getPrintersAsync_result := Inl (Error (js ''spooler down''))\<rparr>)
     = Inl (Error (js ''spooler down''))
   \<and> hiddenWindow idle_state
   \<and> printers (snd (refreshPrinters
        (calm_env\<lparr>getPrintersAsync_result := Inl (Error (js ''spooler down''))\<rparr>) idle_state))
     = [office_printer, label_printer]
   \<and> settings (snd (refreshPrinters
        (calm_env\<lparr>getPrintersAsync_result := Inl (Error (js ''spooler down''))\<rparr>) idle_state))
     = \<lparr>selectedPrinter = None, serverPort = 3321\<rparr>
   \<and> ConsoleError (js ''Failed to fetch printers'') (Error (js ''spooler down''))
        \<in> set (new_events idle_state (snd (refreshPrinters
             (calm_env\<lparr>getPrintersAsync_result := Inl (Error (js ''spooler down''))\<rparr>) idle_state)))
   \<and> printers (snd (refreshPrinters calm_env (idle_state\<lparr>printers := []\<rparr>))) \<noteq> []
   \<and> getPrintersAsync_result calm_env = Inr [office_printer, label_printer]"
  using refreshPrinters_enumeration_failure
      [of "calm_env\<lparr>getPrintersAsync_result := Inl (Error (js ''spooler down''))\<rparr>"
        "Error (js ''spooler down'')" idle_state]
    refreshPrinters_enumeration_failure [of calm_env "Error []" "idle_state\<lparr>printers := []\<rparr>"]
  by (simp add: example_defs js_def no_selection_def refreshPrinters_def registry_defs Let_def)

section \<open>Shape of the discovery and fetch steps\<close>

lemma refreshPrinters_blank:
  assumes "hiddenWindow st" and "getPrintersAsync_result env = Inr ps"
    and "no_selection st" and "preferred ps = Some p" and "name p = []"
  shows "refreshPrinters env st =
     (ps,
      st\<lparr>printers := ps,
         trace := trace st @ [GetPrinters]
         @ (if tray st then [SetContextMenu] else [])
         @ (if notificationSupported env then [ShowNotification (js ''Refreshed printers'')] else [])\<rparr>)"
proof -
  from assms(4) have "ps \<noteq> []" by auto
  then show ?thesis
    using assms
    by (simp add: refreshPrinters_def Let_def no_selection_def emit_def
        setSelectedPrinter_noop updateTrayMenu_eq notify_eq)
qed

lemma refreshPrinters_shape:
  "\<exists>ps' sel evs.
     refreshPrinters env st =
       (ps', st\<lparr>printers := ps', settings := (settings st)\<lparr>selectedPrinter := sel\<rparr>,
               trace := trace st @ evs\<rparr>)
     \<and> (\<forall>e \<in> set evs. registry_event e)
     \<and> length (filter (\<lambda>e. e = GetPrinters) evs) = (if hiddenWindow st then 1 else 0)"
proof (cases "hiddenWindow st")
  case False
  have "refreshPrinters env st =
       (printers st, st\<lparr>printers := printers st,
          settings := (settings st)\<lparr>selectedPrinter := selectedPrinter (settings st)\<rparr>,
          trace := trace st @ []\<rparr>)"
    using False by (simp add: refreshPrinters_no_window)
  then show ?thesis using False
    by (intro exI conjI) (assumption, auto)
next
  case True
  show ?thesis
  proof (cases "getPrintersAsync_result env")
    case (Inl e)
    have "refreshPrinters env st =
       (printers st, st\<lparr>printers := printers st,
          settings := (settings st)\<lparr>selectedPrinter := selectedPrinter (settings st)\<rparr>,
          trace := trace st @ ([GetPrinters, ConsoleError (js ''Failed to fetch printers'') e]
         @ (if tray st then [SetContextMenu] else [])
         @ (if notificationSupported env then [ShowNotification (js ''Refreshed printers'')] else []))\<rparr>)"
      using refreshPrinters_failed [OF True Inl] by simp
    then show ?thesis using True
      by (intro exI conjI) (assumption, auto)
  next
    case (Inr ps)
    show ?thesis
    proof (cases "no_selection st \<and> ps \<noteq> []")
      case False
      have "refreshPrinters env st =
       (ps, st\<lparr>printers := ps,
          settings := (settings st)\<lparr>selectedPrinter := selectedPrinter (settings st)\<rparr>,
          trace := trace st @ ([GetPrinters]
         @ (if tray st then [SetContextMenu] else [])
         @ (if notificationSupported env then [ShowNotification (js ''Refreshed printers'')] else []))\<rparr>)"
        using refreshPrinters_kept [OF True Inr False] by simp
      then show ?thesis using True
        by (intro exI conjI) (assumption, auto)
    next
      case sel: True
      then obtain p where p: "preferred ps = Some p" using preferred_name by blast
      from sel have ns: "no_selection st" by simp
      show ?thesis
      proof (cases "name p = []")
        case blank: True
        have "refreshPrinters env st =
         (ps, st\<lparr>printers := ps,
          settings := (settings st)\<lparr>selectedPrinter := selectedPrinter (settings st)\<rparr>,
          trace := trace st @ ([GetPrinters]
           @ (if tray st then [SetContextMenu] else [])
           @ (if notificationSupported env then [ShowNotification (js ''Refreshed printers'')] else []))\<rparr>)"
          using refreshPrinters_blank [OF True Inr ns p blank] by simp
        then show ?thesis using True
          by (intro exI conjI) (assumption, auto)
      next
        case False
        have "refreshPrinters env st =
         (ps, st\<lparr>printers := ps,
          settings := (settings st)\<lparr>selectedPrinter := Some (name p)\<rparr>,
          trace := trace st @ ([GetPrinters]
         @ WriteSettings ((settings st)\<lparr>selectedPrinter := Some (name p)\<rparr>) #
             (case writeFileSync_result env of None \<Rightarrow> []
              | Some e \<Rightarrow> [ConsoleError (js ''Failed to write settings:'') e])
         @ (if tray st then [SetContextMenu, SetContextMenu] else [])
         @ (if notificationSupported env then [ShowNotification (js ''Refreshed printers'')] else []))\<rparr>)"
          using refreshPrinters_selected [OF True Inr ns p False] by simp
        then show ?thesis using True
          by (intro exI conjI) (assumption, auto split: option.splits)
      qed
    qed
  qed
qed

lemma ensurePrinterAvailable_shape:
  assumes "ensurePrinterAvailable env t st = (ready, st1)"
  shows "\<exists>ps' sel evs.
     st1 = st\<lparr>printers := ps', settings := (settings st)\<lparr>selectedPrinter := sel\<rparr>,
               trace := trace st @ evs\<rparr>
     \<and> (\<forall>e \<in> set evs. registry_event e)
     \<and> ready = list_ex (\<lambda>p. name p = t) ps'
     \<and> length (filter (\<lambda>e. e = GetPrinters) evs) =
         (if \<not> list_ex (\<lambda>p. name p = t) (printers st) \<and> hiddenWindow st then 1 else 0)"
proof (cases "list_ex (\<lambda>p. name p = t) (printers st)")
  case True
  with assms have "ready" and "st1 = st" by (auto simp: ensurePrinterAvailable_def)
  then have "st1 = st\<lparr>printers := printers st,
          settings := (settings st)\<lparr>selectedPrinter := selectedPrinter (settings st)\<rparr>,
          trace := trace st @ []\<rparr>" by simp
  then show ?thesis using True \<open>ready\<close>
    by (intro exI conjI) (assumption, auto)
next
  case False
  obtain ps' sel evs where r: "refreshPrinters env st =
       (ps', st\<lparr>printers := ps', settings := (settings st)\<lparr>selectedPrinter := sel\<rparr>,
               trace := trace st @ evs\<rparr>)"
    and ev: "\<forall>e \<in> set evs. registry_event e"
    and n: "length (filter (\<lambda>e. e = GetPrinters) evs) = (if hiddenWindow st then 1 else 0)"
    using refreshPrinters_shape by blast
  from assms False r have "st1 = st\<lparr>printers := ps', settings := (settings st)\<lparr>selectedPrinter := sel\<rparr>,
               trace := trace st @ evs\<rparr>" and "ready = list_ex (\<lambda>p. name p = t) ps'"
    by (auto simp: ensurePrinterAvailable_def)
  then show ?thesis using ev n False
    by (intro exI conjI) (assumption, auto)
qed


lemma downloadPdf_cases [consumes 1, case_names no_fetch rejected bad_status body_failed
    empty_body mkdtemp_failed write_failed ok]:
  assumes "downloadPdf env u st = (d, st2)"
  obtains
    "fetchImpl env = None"
      "d = Inl (Error (js ''Fetch API is not available in this version of Electron.''))"
      "st2 = st"
  | e where "fetchImpl env = Some (Inl e)" "d = Inl e"
      "st2 = st\<lparr>trace := trace st @ [Fetch u]\<rparr>"
  | resp where "fetchImpl env = Some (Inr resp)" "\<not> resp_ok resp"
      "d = Inl (Error (js ''Download failed: HTTP '' @ decimal (resp_status resp)))"
      "st2 = st\<lparr>trace := trace st @ [Fetch u]\<rparr>"
  | resp e where "fetchImpl env = Some (Inr resp)" "resp_ok resp" "arrayBuffer resp = Inl e"
      "d = Inl e" "st2 = st\<lparr>trace := trace st @ [Fetch u]\<rparr>"
  | resp where "fetchImpl env = Some (Inr resp)" "resp_ok resp" "arrayBuffer resp = Inr []"
      "d = Inl (Error (js ''Downloaded file is empty.''))"
      "st2 = st\<lparr>trace := trace st @ [Fetch u]\<rparr>"
  | resp buf e where "fetchImpl env = Some (Inr resp)" "resp_ok resp"
      "arrayBuffer resp = Inr buf" "buf \<noteq> []" "mkdtemp_result env = Inl e"
      "d = Inl e" "st2 = st\<lparr>trace := trace st @ [Fetch u, MkdTemp]\<rparr>"
  | resp buf dir e where "fetchImpl env = Some (Inr resp)" "resp_ok resp"
      "arrayBuffer resp = Inr buf" "buf \<noteq> []" "mkdtemp_result env = Inr dir"
      "writeFile_result env = Some e" "d = Inl e"
      "st2 = st\<lparr>fs := (fs st)(dir \<mapsto> Map.empty),
                trace := trace st @ [Fetch u, MkdTemp, WriteFile (dir, js ''document.pdf'') buf]\<rparr>"
  | resp buf dir where "fetchImpl env = Some (Inr resp)" "resp_ok resp"
      "arrayBuffer resp = Inr buf" "buf \<noteq> []" "mkdtemp_result env = Inr dir"
      "writeFile_result env = None"
      "d = Inr \<lparr>filePath = (dir, js ''document.pdf''), tempDir = dir\<rparr>"
      "st2 = st\<lparr>fs := (fs st)(dir \<mapsto> [js ''document.pdf'' \<mapsto> buf]),
                trace := trace st @ [Fetch u, MkdTemp, WriteFile (dir, js ''document.pdf'') buf]\<rparr>"
proof (cases "fetchImpl env")
  case None
  with assms that(1) show ?thesis by (simp add: downloadPdf_def)
next
  case (Some fetched)
  show ?thesis
  proof (cases fetched)
    case (Inl e)
    with assms Some that(2) show ?thesis by (simp add: downloadPdf_def emit_def)
  next
    case (Inr resp)
    note resp = Some [unfolded Inr]
    show ?thesis
    proof (cases "resp_ok resp")
      case False
      with assms resp that(3) show ?thesis by (simp add: downloadPdf_def emit_def)
    next
      case ok: True
      show ?thesis
      proof (cases "arrayBuffer resp")
        case (Inl e)
        with assms resp ok that(4) show ?thesis by (simp add: downloadPdf_def emit_def)
      next
        case (Inr buf)
        note buf = this
        show ?thesis
        proof (cases "buf = []")
          case True
          with assms resp ok buf that(5) show ?thesis by (simp add: downloadPdf_def emit_def)
        next
          case ne: False
          show ?thesis
          proof (cases "mkdtemp_result env")
            case (Inl e)
            with assms resp ok buf ne that(6) show ?thesis
              by (simp add: downloadPdf_def emit_def)
          next
            case (Inr dir)
            note dir = this
            show ?thesis
            proof (cases "writeFile_result env")
              case None
              with assms resp ok buf ne dir that(8) show ?thesis
                by (auto simp: downloadPdf_def emit_def Let_def)
            next
              case (Some e)
              with assms resp ok buf ne dir that(7) show ?thesis
                by (auto simp: downloadPdf_def emit_def Let_def)
            qed
          qed
        qed
      qed
    qed
  qed
qed



section \<open>Paths of the print handler\<close>

lemma print_handler_no_url: "\<not> truthy (url req) \<or> \<not> is_string (url req) \<Longrightarrow>
  print_handler env req st =
    (None, st\<lparr>trace := trace st @ [Respond 400 (ErrorBody (js ''Field \"url\" is required.''))]\<rparr>)"
  by (simp add: print_handler_def respond_def emit_def)

lemma print_handler_bad_scheme: "url req = JStr u \<Longrightarrow> u \<noteq> [] \<Longrightarrow> \<not> http_scheme (trim u) \<Longrightarrow>
  print_handler env req st =
    (None, st\<lparr>trace := trace st @ [Respond 400 (ErrorBody (js ''Only http/https URLs are supported.''))]\<rparr>)"
  by (simp add: print_handler_def respond_def emit_def)

lemma print_handler_type_error: "url req = JStr u \<Longrightarrow> u \<noteq> [] \<Longrightarrow> http_scheme (trim u) \<Longrightarrow>
  \<not> is_string (targetPrinter_value req st) \<Longrightarrow>
  print_handler env req st =
    (Some (TypeError (js ''(printerName || settings.selectedPrinter || \"\").trim is not a function'')), st)"
  by (cases "targetPrinter_value req st") (simp_all add: print_handler_def)


lemma print_failed_eq:
  "print_failed env e st =
     st\<lparr>trace := trace st @ [ConsoleError (js ''Print job failed'') e,
                               Respond 500 (ErrorBody (message e))]
          @ (if notificationSupported env
             then [ShowNotification (js ''Print failed: '' @ message e)] else [])\<rparr>"
  by (simp add: print_failed_def respond_def emit_def notify_eq Let_def)

lemma print_handler_no_printer: "url req = JStr u \<Longrightarrow> u \<noteq> [] \<Longrightarrow> http_scheme (trim u) \<Longrightarrow>
  targetPrinter_value req st = JStr s \<Longrightarrow> trim s = [] \<Longrightarrow>
  print_handler env req st =
    (None, st\<lparr>trace := trace st @ [Respond 400 (ErrorBody (js ''No printer selected.''))]\<rparr>)"
  by (simp add: print_handler_def respond_def emit_def)

lemma print_handler_unavailable: "url req = JStr u \<Longrightarrow> u \<noteq> [] \<Longrightarrow> http_scheme (trim u) \<Longrightarrow>
  targetPrinter_value req st = JStr s \<Longrightarrow> trim s \<noteq> [] \<Longrightarrow>
  ensurePrinterAvailable env (trim s) st = (False, st1) \<Longrightarrow>
  print_handler env req st =
    (None, st1\<lparr>trace := trace st1 @
         [Respond 404 (ErrorBody (js ''Selected printer is not available.''))]\<rparr>)"
  by (simp add: print_handler_def respond_def emit_def)

lemma print_handler_copies_raise: "url req = JStr u \<Longrightarrow> u \<noteq> [] \<Longrightarrow> http_scheme (trim u) \<Longrightarrow>
  targetPrinter_value req st = JStr s \<Longrightarrow> trim s \<noteq> [] \<Longrightarrow>
  ensurePrinterAvailable env (trim s) st = (True, st1) \<Longrightarrow>
  Number_parseInt (copies req) = Inl e \<Longrightarrow>
  print_handler env req st = (Some e, st1)"
  by (simp add: print_handler_def)

lemma print_handler_download_failed: "url req = JStr u \<Longrightarrow> u \<noteq> [] \<Longrightarrow> http_scheme (trim u) \<Longrightarrow>
  targetPrinter_value req st = JStr s \<Longrightarrow> trim s \<noteq> [] \<Longrightarrow>
  ensurePrinterAvailable env (trim s) st = (True, st1) \<Longrightarrow>
  downloadPdf env (trim u) st1 = (Inl e, st2) \<Longrightarrow>
  Number_parseInt (copies req) = Inr cv \<Longrightarrow>
  print_handler env req st =
    (None, st2\<lparr>trace := trace st2 @ [ConsoleError (js ''Print job failed'') e,
                               Respond 500 (ErrorBody (message e))]
          @ (if notificationSupported env
             then [ShowNotification (js ''Print failed: '' @ message e)] else [])\<rparr>)"
  by (simp add: print_handler_def print_failed_eq)

lemma print_handler_printed: "url req = JStr u \<Longrightarrow> u \<noteq> [] \<Longrightarrow> http_scheme (trim u) \<Longrightarrow>
  targetPrinter_value req st = JStr s \<Longrightarrow> trim s \<noteq> [] \<Longrightarrow>
  ensurePrinterAvailable env (trim s) st = (True, st1) \<Longrightarrow>
  downloadPdf env (trim u) st1 = (Inr task, st2) \<Longrightarrow> print_result env = None \<Longrightarrow>
  Number_parseInt (copies req) = Inr cv \<Longrightarrow>
  print_handler env req st =
    (None, st2\<lparr>fs := (fs st2)(tempDir task := None),
               trace := trace st2 @
                 [Print (filePath task)
                    \<lparr>opt_printer = trim s, opt_copies = copies_option cv\<rparr>,
                  Respond 200 (PrinterBody (trim s))]
                 @ (if notificationSupported env
                    then [ShowNotification
                            (js ''Sent document to '' @ getPrinterDisplayName st2 (trim s))]
                    else [])
                 @ [Rm (tempDir task)]\<rparr>)"
  by (simp add: print_handler_def respond_def emit_def notify_eq cleanup_def
      getPrinterDisplayName_def Let_def)

lemma print_handler_print_rejected: "url req = JStr u \<Longrightarrow> u \<noteq> [] \<Longrightarrow> http_scheme (trim u) \<Longrightarrow>
  targetPrinter_value req st = JStr s \<Longrightarrow> trim s \<noteq> [] \<Longrightarrow>
  ensurePrinterAvailable env (trim s) st = (True, st1) \<Longrightarrow>
  downloadPdf env (trim u) st1 = (Inr task, st2) \<Longrightarrow> print_result env = Some e \<Longrightarrow>
  Number_parseInt (copies req) = Inr cv \<Longrightarrow>
  print_handler env req st =
    (None, st2\<lparr>fs := (fs st2)(tempDir task := None),
               trace := trace st2 @
                 [Print (filePath task)
                    \<lparr>opt_printer = trim s, opt_copies = copies_option cv\<rparr>,
                  Rm (tempDir task),
                  ConsoleError (js ''Print job failed'') e,
                  Respond 500 (ErrorBody (message e))]
                 @ (if notificationSupported env
                    then [ShowNotification (js ''Print failed: '' @ message e)] else [])\<rparr>)"
  by (simp add: print_handler_def print_failed_eq emit_def cleanup_def Let_def)


lemma print_handler_cases [consumes 1, case_names no_url bad_scheme not_a_string no_printer
    unavailable download_failed printed print_rejected copies_raise]:
  assumes "print_handler env req st = (r, st')"
  obtains
    "\<not> truthy (url req) \<or> \<not> is_string (url req)" "r = None"
      "st' = st\<lparr>trace := trace st @ [Respond 400 (ErrorBody (js ''Field \"url\" is required.''))]\<rparr>"
  | u where "url req = JStr u" "u \<noteq> []" "\<not> http_scheme (trim u)" "r = None"
      "st' = st\<lparr>trace := trace st @
         [Respond 400 (ErrorBody (js ''Only http/https URLs are supported.''))]\<rparr>"
  | u m where "url req = JStr u" "u \<noteq> []" "http_scheme (trim u)"
      "\<not> is_string (targetPrinter_value req st)" "r = Some (TypeError m)" "st' = st"
  | u s where "url req = JStr u" "u \<noteq> []" "http_scheme (trim u)"
      "targetPrinter_value req st = JStr s" "trim s = []" "r = None"
      "st' = st\<lparr>trace := trace st @ [Respond 400 (ErrorBody (js ''No printer selected.''))]\<rparr>"
  | u s st1 where "url req = JStr u" "u \<noteq> []" "http_scheme (trim u)"
      "targetPrinter_value req st = JStr s" "trim s \<noteq> []"
      "ensurePrinterAvailable env (trim s) st = (False, st1)" "r = None"
      "st' = st1\<lparr>trace := trace st1 @
         [Respond 404 (ErrorBody (js ''Selected printer is not available.''))]\<rparr>"
  | u s st1 e st2 cv where "url req = JStr u" "u \<noteq> []" "http_scheme (trim u)"
      "targetPrinter_value req st = JStr s" "trim s \<noteq> []"
      "ensurePrinterAvailable env (trim s) st = (True, st1)"
      "downloadPdf env (trim u) st1 = (Inl e, st2)" "r = None"
      "st' = st2\<lparr>trace := trace st2 @ [ConsoleError (js ''Print job failed'') e,
                               Respond 500 (ErrorBody (message e))]
          @ (if notificationSupported env
             then [ShowNotification (js ''Print failed: '' @ message e)] else [])\<rparr>"
      "Number_parseInt (copies req) = Inr cv"
  | u s st1 task st2 cv where "url req = JStr u" "u \<noteq> []" "http_scheme (trim u)"
      "targetPrinter_value req st = JStr s" "trim s \<noteq> []"
      "ensurePrinterAvailable env (trim s) st = (True, st1)"
      "downloadPdf env (trim u) st1 = (Inr task, st2)" "print_result env = None" "r = None"
      "st' = st2\<lparr>fs := (fs st2)(tempDir task := None),
               trace := trace st2 @
                 [Print (filePath task)
                    \<lparr>opt_printer = trim s, opt_copies = copies_option cv\<rparr>,
                  Respond 200 (PrinterBody (trim s))]
                 @ (if notificationSupported env
                    then [ShowNotification
                            (js ''Sent document to '' @ getPrinterDisplayName st2 (trim s))]
                    else [])
                 @ [Rm (tempDir task)]\<rparr>"
      "Number_parseInt (copies req) = Inr cv"
  | u s st1 task st2 e cv where "url req = JStr u" "u \<noteq> []" "http_scheme (trim u)"
      "targetPrinter_value req st = JStr s" "trim s \<noteq> []"
      "ensurePrinterAvailable env (trim s) st = (True, st1)"
      "downloadPdf env (trim u) st1 = (Inr task, st2)" "print_result env = Some e" "r = None"
      "st' = st2\<lparr>fs := (fs st2)(tempDir task := None),
               trace := trace st2 @
                 [Print (filePath task)
                    \<lparr>opt_printer = trim s, opt_copies = copies_option cv\<rparr>,
                  Rm (tempDir task),
                  ConsoleError (js ''Print job failed'') e,
                  Respond 500 (ErrorBody (message e))]
                 @ (if notificationSupported env
                    then [ShowNotification (js ''Print failed: '' @ message e)] else [])\<rparr>"
      "Number_parseInt (copies req) = Inr cv"
  | u s st1 e where "url req = JStr u" "u \<noteq> []" "http_scheme (trim u)"
      "targetPrinter_value req st = JStr s" "trim s \<noteq> []"
      "ensurePrinterAvailable env (trim s) st = (True, st1)"
      "Number_parseInt (copies req) = Inl e" "r = Some e" "st' = st1"
proof (cases "\<not> truthy (url req) \<or> \<not> is_string (url req)")
  case True
  from assms print_handler_no_url [OF True, of env st] have "r = None"
    "st' = st\<lparr>trace := trace st @ [Respond 400 (ErrorBody (js ''Field \"url\" is required.''))]\<rparr>"
    by simp_all
  with True show ?thesis by (rule that(1))
next
  case False
  then obtain u where u: "url req = JStr u" "u \<noteq> []"
    by (cases "url req") auto
  show ?thesis
  proof (cases "http_scheme (trim u)")
    case False
    from assms print_handler_bad_scheme [OF u False, of env st] have "r = None \<and> st' = st\<lparr>trace := trace st @
         [Respond 400 (ErrorBody (js ''Only http/https URLs are supported.''))]\<rparr>"
      by simp
    with u False show ?thesis using that(2) by blast
  next
    case scheme: True
    show ?thesis
    proof (cases "is_string (targetPrinter_value req st)")
      case False
      from assms print_handler_type_error [OF u scheme False, of env] have "r = Some (TypeError (js ''(printerName || settings.selectedPrinter || \"\").trim is not a function'')) \<and> st' = st"
        by simp
      with u scheme False show ?thesis using that(3) by blast
    next
      case True
      then obtain s where s: "targetPrinter_value req st = JStr s"
        by (cases "targetPrinter_value req st") auto
      show ?thesis
      proof (cases "trim s = []")
        case True
        from assms print_handler_no_printer [OF u scheme s True, of env] have "r = None \<and>
          st' = st\<lparr>trace := trace st @ [Respond 400 (ErrorBody (js ''No printer selected.''))]\<rparr>"
          by simp
        with u scheme s True show ?thesis using that(4) by blast
      next
        case target: False
        obtain ready st1 where ens: "ensurePrinterAvailable env (trim s) st = (ready, st1)"
          by (cases "ensurePrinterAvailable env (trim s) st")
        show ?thesis
        proof (cases ready)
          case False
          with ens have ens: "ensurePrinterAvailable env (trim s) st = (False, st1)" by simp
          from assms print_handler_unavailable [OF u scheme s target ens] have "r = None \<and>
            st' = st1\<lparr>trace := trace st1 @
               [Respond 404 (ErrorBody (js ''Selected printer is not available.''))]\<rparr>"
            by simp
          with u scheme s target ens show ?thesis using that(5) by blast
        next
          case True
          with ens have ens: "ensurePrinterAvailable env (trim s) st = (True, st1)" by simp
          show ?thesis
          proof (cases "Number_parseInt (copies req)")
            case (Inl e)
            from assms print_handler_copies_raise [OF u scheme s target ens Inl]
            have "r = Some e \<and> st' = st1" by simp
            with u scheme s target ens Inl show ?thesis using that(9) by blast
          next
          case cv: (Inr cv)
          obtain d st2 where dl: "downloadPdf env (trim u) st1 = (d, st2)"
            by (cases "downloadPdf env (trim u) st1")
          show ?thesis
          proof (cases d)
            case (Inl e)
            with dl have dl: "downloadPdf env (trim u) st1 = (Inl e, st2)" by simp
            from assms print_handler_download_failed [OF u scheme s target ens dl cv] have "r = None \<and>
              st' = st2\<lparr>trace := trace st2 @ [ConsoleError (js ''Print job failed'') e,
                               Respond 500 (ErrorBody (message e))]
                @ (if notificationSupported env
                   then [ShowNotification (js ''Print failed: '' @ message e)] else [])\<rparr>"
              by simp
            with u scheme s target ens dl cv show ?thesis using that(6) by blast
          next
            case (Inr task)
            with dl have dl: "downloadPdf env (trim u) st1 = (Inr task, st2)" by simp
            show ?thesis
            proof (cases "print_result env")
              case None
              from assms print_handler_printed [OF u scheme s target ens dl None cv] have "r = None \<and>
                st' = st2\<lparr>fs := (fs st2)(tempDir task := None),
                 trace := trace st2 @
                 [Print (filePath task)
                    \<lparr>opt_printer = trim s, opt_copies = copies_option cv\<rparr>,
                  Respond 200 (PrinterBody (trim s))]
                 @ (if notificationSupported env
                    then [ShowNotification
                            (js ''Sent document to '' @ getPrinterDisplayName st2 (trim s))]
                    else [])
                 @ [Rm (tempDir task)]\<rparr>"
                by simp
              with u scheme s target ens dl None cv show ?thesis using that(7) by blast
            next
              case (Some e)
              from assms print_handler_print_rejected [OF u scheme s target ens dl Some cv] have "r = None \<and>
                st' = st2\<lparr>fs := (fs st2)(tempDir task := None),
                 trace := trace st2 @
                 [Print (filePath task)
                    \<lparr>opt_printer = trim s, opt_copies = copies_option cv\<rparr>,
                  Rm (tempDir task),
                  ConsoleError (js ''Print job failed'') e,
                  Respond 500 (ErrorBody (message e))]
                 @ (if notificationSupported env
                    then [ShowNotification (js ''Print failed: '' @ message e)] else [])\<rparr>"
                by simp
              with u scheme s target ens dl Some cv show ?thesis using that(8) by blast
            qed
          qed
          qed
        qed
      qed
    qed
  qed
qed

section \<open>Concrete runs\<close>

lemmas eval_defs = print_handler_def downloadPdf_def ensurePrinterAvailable_def
  refreshPrinters_def respond_def print_failed_def cleanup_def getPrinterDisplayName_def
  targetPrinter_value_def copies_option_def Number_parseInt_def http_scheme_def starts_with_ci_def fold_case_def
  trim_def trimStart_def is_space_def parseInt_def is_digit_def digits_value_def
  round_binary64_def resp_ok_def no_selection_def Let_def


lemmas run_defs = example_defs label_selected_state_def label_only_state_def
  disk_full_env_def offline_env_def js_def eval_defs
  emit_def notify_def registry_defs bitlen.simps

lemma run_no_printer:
  "print_handler calm_env (office_request\<lparr>printerName := JUndefined\<rparr>) idle_state
   = (None, idle_state\<lparr>trace := [Respond 400 (ErrorBody (js ''No printer selected.''))]\<rparr>)"
  by (simp add: run_defs)

lemma run_explicit:
  "fst (print_handler calm_env (office_request\<lparr>printerName := JStr (js '' Office-Printer '')\<rparr>)
      label_selected_state) = None
   \<and> trace (snd (print_handler calm_env (office_request\<lparr>printerName := JStr (js '' Office-Printer '')\<rparr>)
      label_selected_state))
     = [Fetch (js ''https://example.com/a.pdf''), MkdTemp,
        WriteFile (js ''/tmp/printer-ws-Ab12Cd'', js ''document.pdf'') [0x25, 0x50, 0x44, 0x46],
        Print (js ''/tmp/printer-ws-Ab12Cd'', js ''document.pdf'')
          \<lparr>opt_printer = js ''Office-Printer'', opt_copies = Some 2\<rparr>,
        Respond 200 (PrinterBody (js ''Office-Printer'')),
        ShowNotification (js ''Sent document to Office Printer''),
        Rm (js ''/tmp/printer-ws-Ab12Cd'')]
   \<and> fs (snd (print_handler calm_env (office_request\<lparr>printerName := JStr (js '' Office-Printer '')\<rparr>)
      label_selected_state)) = Map.empty"
  by (simp add: run_defs)

lemma run_missing:
  "fst (print_handler (calm_env\<lparr>getPrintersAsync_result := Inr [label_printer]\<rparr>)
      office_request label_only_state) = None
   \<and> trace (snd (print_handler (calm_env\<lparr>getPrintersAsync_result := Inr [label_printer]\<rparr>)
      office_request label_only_state))
     = [GetPrinters,
        WriteSettings \<lparr>selectedPrinter = Some (js ''Label-Printer''), serverPort = 3321\<rparr>,
        SetContextMenu, SetContextMenu, ShowNotification (js ''Refreshed printers''),
        Respond 404 (ErrorBody (js ''Selected printer is not available.''))]
   \<and> fs (snd (print_handler (calm_env\<lparr>getPrintersAsync_result := Inr [label_printer]\<rparr>)
      office_request label_only_state)) = Map.empty
   \<and> printers (snd (print_handler (calm_env\<lparr>getPrintersAsync_result := Inr [label_printer]\<rparr>)
      office_request label_only_state)) = [label_printer]"
  by (simp add: run_defs)


lemma run_office:
  "fst (print_handler calm_env office_request idle_state) = None
   \<and> trace (snd (print_handler calm_env office_request idle_state))
     = [Fetch (js ''https://example.com/a.pdf''), MkdTemp,
        WriteFile (js ''/tmp/printer-ws-Ab12Cd'', js ''document.pdf'') [0x25, 0x50, 0x44, 0x46],
        Print (js ''/tmp/printer-ws-Ab12Cd'', js ''document.pdf'')
          \<lparr>opt_printer = js ''Office-Printer'', opt_copies = Some 2\<rparr>,
        Respond 200 (PrinterBody (js ''Office-Printer'')),
        ShowNotification (js ''Sent document to Office Printer''),
        Rm (js ''/tmp/printer-ws-Ab12Cd'')]"
  by (simp add: run_defs)

lemma run_offline:
  "fst (print_handler offline_env office_request idle_state) = None
   \<and> trace (snd (print_handler offline_env office_request idle_state))
     = [Fetch (js ''https://example.com/a.pdf''), MkdTemp,
        WriteFile (js ''/tmp/printer-ws-Ab12Cd'', js ''document.pdf'') [0x25, 0x50, 0x44, 0x46],
        Print (js ''/tmp/printer-ws-Ab12Cd'', js ''document.pdf'')
          \<lparr>opt_printer = js ''Office-Printer'', opt_copies = Some 2\<rparr>,
        Rm (js ''/tmp/printer-ws-Ab12Cd''),
        ConsoleError (js ''Print job failed'') (Error (js ''Printer offline'')),
        Respond 500 (ErrorBody (js ''Printer offline'')),
        ShowNotification (js ''Print failed: Printer offline'')]"
  by (simp add: run_defs)

lemma run_disk_full:
  "fst (print_handler disk_full_env office_request idle_state) = None
   \<and> trace (snd (print_handler disk_full_env office_request idle_state))
     = [Fetch (js ''https://example.com/a.pdf''), MkdTemp,
        WriteFile (js ''/tmp/printer-ws-Ab12Cd'', js ''document.pdf'') [0x25, 0x50, 0x44, 0x46],
        ConsoleError (js ''Print job failed'') (Error (js ''ENOSPC: no space left on device'')),
        Respond 500 (ErrorBody (js ''ENOSPC: no space left on device'')),
        ShowNotification (js ''Print failed: ENOSPC: no space left on device'')]"
  by (simp add: run_defs)

lemma run_text_copies:
  "trace (snd (print_handler calm_env (office_request\<lparr>copies := JStr (js ''-3'')\<rparr>) idle_state))
     = [Fetch (js ''https://example.com/a.pdf''), MkdTemp,
        WriteFile (js ''/tmp/printer-ws-Ab12Cd'', js ''document.pdf'') [0x25, 0x50, 0x44, 0x46],
        Print (js ''/tmp/printer-ws-Ab12Cd'', js ''document.pdf'')
          \<lparr>opt_printer = js ''Office-Printer'', opt_copies = None\<rparr>,
        Respond 200 (PrinterBody (js ''Office-Printer'')),
        ShowNotification (js ''Sent document to Office Printer''),
        Rm (js ''/tmp/printer-ws-Ab12Cd'')]"
  by (simp add: run_defs)


lemma run_found:
  "printers (snd (print_handler calm_env office_request label_only_state))
     = [office_printer, label_printer]"
  by (simp add: run_defs)

section \<open>Validation of the request\<close>

lemma responses_append: "responses (xs @ ys) = responses xs @ responses ys"
  by (induction xs rule: responses.induct) auto

lemma responses_registry: "\<forall>e \<in> set evs. registry_event e \<Longrightarrow> responses evs = []"
  by (induction evs rule: responses.induct) auto


lemma downloadPdf_frame:
  assumes "downloadPdf env u st = (d, st2)"
  shows "printers st2 = printers st \<and> settings st2 = settings st
     \<and> (\<exists>evs2. trace st2 = trace st @ evs2
           \<and> set evs2 \<subseteq> {Fetch u, MkdTemp} \<union> {e. \<exists>p b. e = WriteFile p b}
           \<and> responses evs2 = []
           \<and> (fetchImpl env \<noteq> None \<longrightarrow> Fetch u \<in> set evs2))"
  using assms by (cases rule: downloadPdf_cases) auto

text \<open>
  C3, as amended. A \<open>/print\<close> request whose \<open>url\<close> is missing (or otherwise falsy),
  is not a string, or whose string, once surrounding white space is trimmed, does not
  start with \<open>http://\<close> or \<open>https://\<close> (letters compared without case), is answered
  with status 400 and nothing else happens: no fetch, no temporary directory, and the
  file system is as before.
\<close>

theorem print_rejects_bad_url:
  assumes "\<not> truthy (url req) \<or> \<not> is_string (url req)
           \<or> (\<exists>u. url req = JStr u \<and> \<not> http_scheme (trim u))"
  shows "fst (print_handler env req st) = None
    \<and> (new_events st (snd (print_handler env req st))
          = [Respond 400 (ErrorBody (js ''Field \"url\" is required.''))]
       \<or> new_events st (snd (print_handler env req st))
          = [Respond 400 (ErrorBody (js ''Only http/https URLs are supported.''))])
    \<and> (\<forall>u. Fetch u \<notin> set (new_events st (snd (print_handler env req st))))
    \<and> MkdTemp \<notin> set (new_events st (snd (print_handler env req st)))
    \<and> fs (snd (print_handler env req st)) = fs st"
proof (cases "\<not> truthy (url req) \<or> \<not> is_string (url req)")
  case True
  then show ?thesis
    by (simp add: print_handler_no_url [OF True] new_events_def)
next
  case False
  then obtain u where u: "url req = JStr u" "u \<noteq> []"
    by (cases "url req") auto
  with assms have "\<not> http_scheme (trim u)" by simp
  from print_handler_bad_scheme [OF u this] show ?thesis
    by (simp add: new_events_def)
qed

theorem print_rejects_bad_url_witness:
  "url (office_request\<lparr>url := JStr (js ''ftp://x'')\<rparr>) = JStr (js ''ftp://x'')
   \<and> \<not> http_scheme (trim (js ''ftp://x''))
   \<and> new_events idle_state
        (snd (print_handler calm_env (office_request\<lparr>url := JStr (js ''ftp://x'')\<rparr>) idle_state))
      = [Respond 400 (ErrorBody (js ''Only http/https URLs are supported.''))]
   \<and> \<not> is_string (url (office_request\<lparr>url := JNum (js ''7'')\<rparr>))
   \<and> new_events idle_state
        (snd (print_handler calm_env (office_request\<lparr>url := JNum (js ''7'')\<rparr>) idle_state))
      = [Respond 400 (ErrorBody (js ''Field \"url\" is required.''))]
   \<and> fs (snd (print_handler calm_env (office_request\<lparr>url := JStr (js ''ftp://x'')\<rparr>) idle_state))
      = fs idle_state"
proof -
  let ?ftp = "office_request\<lparr>url := JStr (js ''ftp://x'')\<rparr>"
  let ?num = "office_request\<lparr>url := JNum (js ''7'')\<rparr>"
  have f: "url ?ftp = JStr (js ''ftp://x'')" "\<not> http_scheme (trim (js ''ftp://x''))"
    by (simp_all add: run_defs)
  have n: "\<not> is_string (url ?num)" by simp
  have rf: "new_events idle_state (snd (print_handler calm_env ?ftp idle_state))
      = [Respond 400 (ErrorBody (js ''Only http/https URLs are supported.''))]"
    by (simp add: run_defs)
  have rn: "new_events idle_state (snd (print_handler calm_env ?num idle_state))
      = [Respond 400 (ErrorBody (js ''Field \"url\" is required.''))]"
    by (simp add: run_defs)
  from print_rejects_bad_url [of ?ftp calm_env idle_state] f
  have c: "fs (snd (print_handler calm_env ?ftp idle_state)) = fs idle_state" by blast
  from print_rejects_bad_url [of ?num calm_env idle_state] n
  have "fst (print_handler calm_env ?num idle_state) = None" by blast
  with f n rf rn c show ?thesis by simp
qed

text \<open>
  C3 as stated fails: the scheme test is made on the trimmed \<open>url\<close>. A \<open>url\<close> that begins
  with a space does not begin with \<open>http://\<close>, yet the request is accepted, the document
  is fetched and the response is 200.
\<close>

theorem print_untrimmed_url_counterexample:
  "\<not> http_scheme (js '' http://example.com/a.pdf'')
   \<and> Fetch (js ''http://example.com/a.pdf'')
       \<in> set (trace (snd (print_handler calm_env
            (office_request\<lparr>url := JStr (js '' http://example.com/a.pdf'')\<rparr>) idle_state)))
   \<and> responses (trace (snd (print_handler calm_env
            (office_request\<lparr>url := JStr (js '' http://example.com/a.pdf'')\<rparr>) idle_state)))
       = [(200, PrinterBody (js ''Office-Printer''))]"
  by (simp add: run_defs)

section \<open>Resolving the target printer\<close>

text \<open>
  C9, as amended. For a \<open>/print\<close> request with a valid URL whose \<open>printerName\<close> is
  absent (or otherwise falsy) or a string, the target is \<open>printerName\<close> trimmed when
  \<open>printerName\<close> is a non-empty string (white space counts, so a blank \<open>printerName\<close>
  still takes priority), else the selection of the registry trimmed. When the target is
  empty the request ends with status 400 and the message ``No printer selected.'',
  before any availability check, download or print. Otherwise no 400 is sent, and the
  availability check, the print options and the success response all use that target.
\<close>

theorem print_resolves_target:
  assumes "url req = JStr u" and "u \<noteq> []"
    and "http_scheme (trim u)"
    and "\<not> truthy (printerName req) \<or> printerName req = JStr n"
    and "t = trim (if truthy (printerName req) then n
                   else case selectedPrinter (settings st) of None \<Rightarrow> [] | Some s \<Rightarrow> s)"
    and "print_handler env req st = (r, st')"
  shows "(t = [] \<longrightarrow>
            r = None
            \<and> st' = st\<lparr>trace := trace st @ [Respond 400 (ErrorBody (js ''No printer selected.''))]\<rparr>)
    \<and> (t \<noteq> [] \<longrightarrow>
            (\<forall>b. Respond 400 b \<notin> set (new_events st st'))
            \<and> (\<forall>p opts. Print p opts \<in> set (new_events st st') \<longrightarrow> opt_printer opts = t)
            \<and> (\<forall>b. Respond 200 b \<in> set (new_events st st') \<longrightarrow> b = PrinterBody t)
            \<and> ((\<exists>b. Respond 404 b \<in> set (new_events st st'))
                 \<longleftrightarrow> \<not> list_ex (\<lambda>p. name p = t) (printers st')))"
proof -
  note u = assms(1,2) and scheme = assms(3)
  have "\<exists>s. targetPrinter_value req st = JStr s \<and> t = trim s"
    using assms(4,5)
    by (cases "printerName req") (auto simp: targetPrinter_value_def split: option.splits)
  then obtain s where s: "targetPrinter_value req st = JStr s" and ts: "t = trim s"
    by blast
  show ?thesis
  proof (cases "t = []")
    case True
    with ts have "trim s = []" by simp
    from print_handler_no_printer [OF u scheme s this, of env] assms(6) True
    show ?thesis by simp
  next
    case target: False
    with ts have tne: "trim s \<noteq> []" by simp
    obtain ready st1 where ens: "ensurePrinterAvailable env (trim s) st = (ready, st1)"
      by (cases "ensurePrinterAvailable env (trim s) st")
    from ensurePrinterAvailable_shape [OF ens]
    obtain ps' sel evs where st1: "st1 = st\<lparr>printers := ps',
          settings := (settings st)\<lparr>selectedPrinter := sel\<rparr>, trace := trace st @ evs\<rparr>"
      and reg: "\<forall>e \<in> set evs. registry_event e"
      and ready: "ready = list_ex (\<lambda>p. name p = t) ps'"
      using ts by blast
    show ?thesis
    proof (cases ready)
      case False
      with ens have ens': "ensurePrinterAvailable env (trim s) st = (False, st1)" by simp
      from print_handler_unavailable [OF u scheme s tne ens'] assms(6)
      have "st' = st1\<lparr>trace := trace st1 @
         [Respond 404 (ErrorBody (js ''Selected printer is not available.''))]\<rparr>" by simp
      with st1 reg ready False target show ?thesis
        by (auto simp: new_events_def)
    next
      case True
      with ens have ens': "ensurePrinterAvailable env (trim s) st = (True, st1)" by simp
      show ?thesis
      proof (cases "Number_parseInt (copies req)")
        case (Inl e)
        from print_handler_copies_raise [OF u scheme s tne ens' Inl] assms(6)
        have "st' = st1" by simp
        with st1 reg ready True target show ?thesis
          by (auto simp: new_events_def)
      next
      case cv: (Inr cv)
      obtain d st2 where dl: "downloadPdf env (trim u) st1 = (d, st2)"
        by (cases "downloadPdf env (trim u) st1")
      from dl have st2: "printers st2 = printers st1
          \<and> (\<exists>evs2. trace st2 = trace st1 @ evs2
               \<and> set evs2 \<subseteq> {Fetch (trim u), MkdTemp} \<union> {e. \<exists>p b. e = WriteFile p b})"
        by (cases rule: downloadPdf_cases) auto
      then obtain evs2 where tr2: "trace st2 = trace st1 @ evs2"
        and ev2: "set evs2 \<subseteq> {Fetch (trim u), MkdTemp} \<union> {e. \<exists>p b. e = WriteFile p b}"
        and pr2: "printers st2 = printers st1" by blast
      show ?thesis
      proof (cases d)
        case (Inl e)
        with dl have dl': "downloadPdf env (trim u) st1 = (Inl e, st2)" by simp
        from print_handler_download_failed [OF u scheme s tne ens' dl' cv] assms(6)
        have "st' = st2\<lparr>trace := trace st2 @ [ConsoleError (js ''Print job failed'') e,
                               Respond 500 (ErrorBody (message e))]
          @ (if notificationSupported env
             then [ShowNotification (js ''Print failed: '' @ message e)] else [])\<rparr>" by simp
        with st1 reg ready True target tr2 ev2 pr2 show ?thesis
          by (auto simp: new_events_def)
      next
        case (Inr task)
        with dl have dl': "downloadPdf env (trim u) st1 = (Inr task, st2)" by simp
        show ?thesis
        proof (cases "print_result env")
          case None
          from print_handler_printed [OF u scheme s tne ens' dl' None cv] assms(6)
          have "st' = st2\<lparr>fs := (fs st2)(tempDir task := None),
               trace := trace st2 @
                 [Print (filePath task)
                    \<lparr>opt_printer = trim s, opt_copies = copies_option cv\<rparr>,
                  Respond 200 (PrinterBody (trim s))]
                 @ (if notificationSupported env
                    then [ShowNotification
                            (js ''Sent document to '' @ getPrinterDisplayName st2 (trim s))]
                    else [])
                 @ [Rm (tempDir task)]\<rparr>" by simp
          with st1 reg ready True target tr2 ev2 pr2 ts show ?thesis
            by (auto simp: new_events_def)
        next
          case (Some e)
          from print_handler_print_rejected [OF u scheme s tne ens' dl' Some cv] assms(6)
          have "st' = st2\<lparr>fs := (fs st2)(tempDir task := None),
               trace := trace st2 @
                 [Print (filePath task)
                    \<lparr>opt_printer = trim s, opt_copies = copies_option cv\<rparr>,
                  Rm (tempDir task),
                  ConsoleError (js ''Print job failed'') e,
                  Respond 500 (ErrorBody (message e))]
                 @ (if notificationSupported env
                    then [ShowNotification (js ''Print failed: '' @ message e)] else [])\<rparr>" by simp
          with st1 reg ready True target tr2 ev2 pr2 ts show ?thesis
            by (auto simp: new_events_def)
        qed
      qed
      qed
    qed
  qed
qed

theorem print_resolves_target_witness:
  "url office_request = JStr (js ''https://example.com/a.pdf'')
   \<and> js ''https://example.com/a.pdf'' \<noteq> []
   \<and> http_scheme (trim (js ''https://example.com/a.pdf''))
   \<and> \<not> truthy (printerName (office_request\<lparr>printerName := JUndefined\<rparr>))
   \<and> snd (print_handler calm_env (office_request\<lparr>printerName := JUndefined\<rparr>) idle_state)
       = idle_state\<lparr>trace := trace idle_state
                      @ [Respond 400 (ErrorBody (js ''No printer selected.''))]\<rparr>
   \<and> printerName (office_request\<lparr>printerName := JStr (js '' Office-Printer '')\<rparr>)
       = JStr (js '' Office-Printer '')
   \<and> selectedPrinter (settings label_selected_state) = Some (js ''Label-Printer'')
   \<and> Respond 200 (PrinterBody (js ''Office-Printer''))
       \<in> set (new_events label_selected_state
            (snd (print_handler calm_env
               (office_request\<lparr>printerName := JStr (js '' Office-Printer '')\<rparr>) label_selected_state)))
   \<and> Respond 400 (ErrorBody (js ''No printer selected.''))
       \<notin> set (new_events label_selected_state
            (snd (print_handler calm_env
               (office_request\<lparr>printerName := JStr (js '' Office-Printer '')\<rparr>) label_selected_state)))"
proof -
  let ?absent = "office_request\<lparr>printerName := JUndefined\<rparr>"
  let ?explicit = "office_request\<lparr>printerName := JStr (js '' Office-Printer '')\<rparr>"
  let ?u = "js ''https://example.com/a.pdf''"
  have u0: "url office_request = JStr ?u" by (simp add: office_request_def)
  have u: "?u \<noteq> []" "http_scheme (trim ?u)" by (simp_all add: run_defs)
  have ua: "url ?absent = JStr ?u" and ue: "url ?explicit = JStr ?u"
    by (simp_all add: office_request_def)
  have a: "\<not> truthy (printerName ?absent) \<or> printerName ?absent = JStr []" by simp
  have ta: "[] = trim (if truthy (printerName ?absent) then []
      else case selectedPrinter (settings idle_state) of None \<Rightarrow> [] | Some s \<Rightarrow> s)"
    by (simp add: run_defs)
  have ra: "print_handler calm_env ?absent idle_state
      = (fst (print_handler calm_env ?absent idle_state),
         snd (print_handler calm_env ?absent idle_state))" by simp
  from print_resolves_target [OF ua u a ta ra]
  have c1: "snd (print_handler calm_env ?absent idle_state)
       = idle_state\<lparr>trace := trace idle_state
                      @ [Respond 400 (ErrorBody (js ''No printer selected.''))]\<rparr>"
    by simp
  have e: "\<not> truthy (printerName ?explicit)
      \<or> printerName ?explicit = JStr (js '' Office-Printer '')" by simp
  have te: "js ''Office-Printer'' = trim (if truthy (printerName ?explicit)
      then js '' Office-Printer ''
      else case selectedPrinter (settings label_selected_state) of None \<Rightarrow> [] | Some s \<Rightarrow> s)"
    by (simp add: run_defs)
  have re: "print_handler calm_env ?explicit label_selected_state
      = (fst (print_handler calm_env ?explicit label_selected_state),
         snd (print_handler calm_env ?explicit label_selected_state))" by simp
  have ne: "js ''Office-Printer'' \<noteq> []" by (simp add: js_def)
  from print_resolves_target [OF ue u e te re] ne
  have c2: "Respond 400 (ErrorBody (js ''No printer selected.''))
       \<notin> set (new_events label_selected_state
            (snd (print_handler calm_env ?explicit label_selected_state)))"
    by simp
  have m: "Respond 200 (PrinterBody (js ''Office-Printer''))
       \<in> set (new_events label_selected_state
            (snd (print_handler calm_env ?explicit label_selected_state)))"
    using run_explicit by (simp add: new_events_def label_selected_state_def idle_state_def)
  have sel: "selectedPrinter (settings label_selected_state) = Some (js ''Label-Printer'')"
    by (simp add: label_selected_state_def)
  from u0 u a c1 sel m c2 show ?thesis by simp
qed

text \<open>
  C9 as stated fails: a truthy \<open>printerName\<close> that is not a string (here the number 5)
  takes priority over the selection, \<open>.trim()\<close> raises a \<open>TypeError\<close>, and the handler's
  promise rejects without the handler having sent a response, so it sends no 400. Where
  the 400 is sent, its message ends with a full stop.
\<close>

theorem print_numeric_printerName_counterexample:
  "truthy (url office_request) \<and> is_string (url office_request)
   \<and> url office_request = JStr (js ''https://example.com/a.pdf'')
   \<and> http_scheme (trim (js ''https://example.com/a.pdf''))
   \<and> selectedPrinter (settings idle_state) = None
   \<and> print_handler calm_env (office_request\<lparr>printerName := JNum (js ''5'')\<rparr>) idle_state
       = (Some (TypeError (js ''(printerName || settings.selectedPrinter || \"\").trim is not a function'')),
          idle_state)
   \<and> responses (new_events idle_state
         (snd (print_handler calm_env (office_request\<lparr>printerName := JNum (js ''5'')\<rparr>) idle_state)))
       = []
   \<and> responses (new_events idle_state
         (snd (print_handler calm_env (office_request\<lparr>printerName := JUndefined\<rparr>) idle_state)))
       = [(400, ErrorBody (js ''No printer selected.''))]
   \<and> js ''No printer selected.'' \<noteq> js ''No printer selected''"
  by (simp add: example_defs js_def eval_defs new_events_def emit_def)

section \<open>Availability of the target printer\<close>

text \<open>
  C2. For a \<open>/print\<close> request with a valid URL whose resolved target printer is not in
  the cached list, the printers are enumerated exactly once and the list is checked
  again: if the printer is still absent the response is 404, no fetch is made and no
  temporary directory is created; if it is present now, no 404 is sent and, when the
  \<open>copies\<close> value has a string conversion, the request goes on to the fetch. The hidden
  window exists whenever the server runs.
\<close>

theorem print_absent_printer_refreshes_once:
  assumes "url req = JStr u" and "u \<noteq> []"
    and "http_scheme (trim u)"
    and "targetPrinter_value req st = JStr s" and "trim s \<noteq> []"
    and "\<not> list_ex (\<lambda>p. name p = trim s) (printers st)"
    and "hiddenWindow st"
    and "print_handler env req st = (r, st')"
  shows "length (filter (\<lambda>e. e = GetPrinters) (new_events st st')) = 1
    \<and> (\<not> list_ex (\<lambda>p. name p = trim s) (printers st') \<longrightarrow>
          r = None
          \<and> responses (new_events st st')
              = [(404, ErrorBody (js ''Selected printer is not available.''))]
          \<and> (\<forall>u. Fetch u \<notin> set (new_events st st'))
          \<and> MkdTemp \<notin> set (new_events st st')
          \<and> fs st' = fs st)
    \<and> (list_ex (\<lambda>p. name p = trim s) (printers st') \<longrightarrow>
          (\<forall>b. Respond 404 b \<notin> set (new_events st st'))
          \<and> (fetchImpl env \<noteq> None \<and> (\<exists>text. ToString (copies req) = Inr text) \<longrightarrow>
                Fetch (trim u) \<in> set (new_events st st')))"
proof -
  note u = assms(1,2) and scheme = assms(3)
  note s = assms(4) and tne = assms(5)
  obtain ready st1 where ens: "ensurePrinterAvailable env (trim s) st = (ready, st1)"
    by (cases "ensurePrinterAvailable env (trim s) st")
  from ensurePrinterAvailable_shape [OF ens] assms(6,7)
  obtain ps' sel evs where st1: "st1 = st\<lparr>printers := ps',
        settings := (settings st)\<lparr>selectedPrinter := sel\<rparr>, trace := trace st @ evs\<rparr>"
    and reg: "\<forall>e \<in> set evs. registry_event e"
    and ready: "ready = list_ex (\<lambda>p. name p = trim s) ps'"
    and once: "length (filter (\<lambda>e. e = GetPrinters) evs) = 1"
    by auto
  from reg have noresp: "responses evs = []" by (rule responses_registry)
  show ?thesis
  proof (cases ready)
    case False
    with ens have ens': "ensurePrinterAvailable env (trim s) st = (False, st1)" by simp
    from print_handler_unavailable [OF u scheme s tne ens'] assms(8)
    have "r = None" "st' = st1\<lparr>trace := trace st1 @
       [Respond 404 (ErrorBody (js ''Selected printer is not available.''))]\<rparr>" by simp_all
    with st1 reg ready False once noresp show ?thesis
      by (auto simp: new_events_def responses_append)
  next
    case True
    with ens have ens': "ensurePrinterAvailable env (trim s) st = (True, st1)" by simp
    show ?thesis
    proof (cases "Number_parseInt (copies req)")
      case (Inl e)
      then have nc: "\<not> (\<exists>text. ToString (copies req) = Inr text)"
        by (auto simp: Number_parseInt_def split: sum.splits)
      from print_handler_copies_raise [OF u scheme s tne ens' Inl] assms(8)
      have "st' = st1" by simp
      with st1 reg ready True once nc show ?thesis
        by (auto simp: new_events_def)
    next
    case cv: (Inr cv)
    obtain d st2 where dl: "downloadPdf env (trim u) st1 = (d, st2)"
      by (cases "downloadPdf env (trim u) st1")
    from downloadPdf_frame [OF dl]
    obtain evs2 where tr2: "trace st2 = trace st1 @ evs2"
      and ev2: "set evs2 \<subseteq> {Fetch (trim u), MkdTemp} \<union> {e. \<exists>p b. e = WriteFile p b}"
      and pr2: "printers st2 = printers st1"
      and fe2: "fetchImpl env \<noteq> None \<longrightarrow> Fetch (trim u) \<in> set evs2" by blast
    from ev2 have g2: "filter (\<lambda>e. e = GetPrinters) evs2 = []"
      by (auto simp: filter_empty_conv)
    show ?thesis
    proof (cases d)
      case (Inl e)
      with dl have dl': "downloadPdf env (trim u) st1 = (Inl e, st2)" by simp
      from print_handler_download_failed [OF u scheme s tne ens' dl' cv] assms(8)
      have "st' = st2\<lparr>trace := trace st2 @ [ConsoleError (js ''Print job failed'') e,
                             Respond 500 (ErrorBody (message e))]
        @ (if notificationSupported env
           then [ShowNotification (js ''Print failed: '' @ message e)] else [])\<rparr>" by simp
      with st1 reg ready True tr2 ev2 pr2 once g2 fe2 u show ?thesis
        by (auto simp: new_events_def)
    next
      case (Inr task)
      with dl have dl': "downloadPdf env (trim u) st1 = (Inr task, st2)" by simp
      show ?thesis
      proof (cases "print_result env")
        case None
        from print_handler_printed [OF u scheme s tne ens' dl' None cv] assms(8)
        have "st' = st2\<lparr>fs := (fs st2)(tempDir task := None),
             trace := trace st2 @
               [Print (filePath task)
                  \<lparr>opt_printer = trim s, opt_copies = copies_option cv\<rparr>,
                Respond 200 (PrinterBody (trim s))]
               @ (if notificationSupported env
                  then [ShowNotification
                          (js ''Sent document to '' @ getPrinterDisplayName st2 (trim s))]
                  else [])
               @ [Rm (tempDir task)]\<rparr>" by simp
        with st1 reg ready True tr2 ev2 pr2 once g2 fe2 u show ?thesis
          by (auto simp: new_events_def)
      next
        case (Some e)
        from print_handler_print_rejected [OF u scheme s tne ens' dl' Some cv] assms(8)
        have "st' = st2\<lparr>fs := (fs st2)(tempDir task := None),
             trace := trace st2 @
               [Print (filePath task)
                  \<lparr>opt_printer = trim s, opt_copies = copies_option cv\<rparr>,
                Rm (tempDir task),
                ConsoleError (js ''Print job failed'') e,
                Respond 500 (ErrorBody (message e))]
               @ (if notificationSupported env
                  then [ShowNotification (js ''Print failed: '' @ message e)] else [])\<rparr>" by simp
        with st1 reg ready True tr2 ev2 pr2 once g2 fe2 u show ?thesis
          by (auto simp: new_events_def)
      qed
    qed
    qed
  qed
qed

theorem print_absent_printer_refreshes_once_witness:
  "url office_request = JStr (js ''https://example.com/a.pdf'')
   \<and> js ''https://example.com/a.pdf'' \<noteq> []
   \<and> http_scheme (trim (js ''https://example.com/a.pdf''))
   \<and> targetPrinter_value office_request label_only_state = JStr (js ''Office-Printer'')
   \<and> trim (js ''Office-Printer'') \<noteq> []
   \<and> \<not> list_ex (\<lambda>p. name p = trim (js ''Office-Printer'')) (printers label_only_state)
   \<and> hiddenWindow label_only_state
   \<and> length (filter (\<lambda>e. e = GetPrinters)
        (new_events label_only_state
           (snd (print_handler (calm_env\<lparr>getPrintersAsync_result := Inr [label_printer]\<rparr>)
              office_request label_only_state)))) = 1
   \<and> responses
        (new_events label_only_state
           (snd (print_handler (calm_env\<lparr>getPrintersAsync_result := Inr [label_printer]\<rparr>)
              office_request label_only_state)))
       = [(404, ErrorBody (js ''Selected printer is not available.''))]
   \<and> MkdTemp \<notin> set (new_events label_only_state
           (snd (print_handler (calm_env\<lparr>getPrintersAsync_result := Inr [label_printer]\<rparr>)
              office_request label_only_state)))
   \<and> list_ex (\<lambda>p. name p = trim (js ''Office-Printer''))
        (printers (snd (print_handler calm_env office_request label_only_state)))
   \<and> fetchImpl calm_env \<noteq> None
   \<and> ToString (copies office_request) = Inr (js ''2'')
   \<and> Fetch (trim (js ''https://example.com/a.pdf''))
       \<in> set (new_events label_only_state
            (snd (print_handler calm_env office_request label_only_state)))"
proof -
  let ?env = "calm_env\<lparr>getPrintersAsync_result := Inr [label_printer]\<rparr>"
  let ?u = "js ''https://example.com/a.pdf''"
  have u: "url office_request = JStr ?u" "?u \<noteq> []" "http_scheme (trim ?u)"
    by (simp_all add: run_defs)
  have t: "targetPrinter_value office_request label_only_state = JStr (js ''Office-Printer'')"
    by (simp add: run_defs)
  have ne: "trim (js ''Office-Printer'') \<noteq> []" by (simp add: run_defs)
  have ab: "\<not> list_ex (\<lambda>p. name p = trim (js ''Office-Printer'')) (printers label_only_state)"
    by (simp add: run_defs)
  have w: "hiddenWindow label_only_state" by (simp add: run_defs)
  have r: "print_handler ?env office_request label_only_state
      = (fst (print_handler ?env office_request label_only_state),
         snd (print_handler ?env office_request label_only_state))" by simp
  have still: "\<not> list_ex (\<lambda>p. name p = trim (js ''Office-Printer''))
      (printers (snd (print_handler ?env office_request label_only_state)))"
    using run_missing by (simp add: run_defs)
  from print_absent_printer_refreshes_once [OF u t ne ab w r] still
  have c: "length (filter (\<lambda>e. e = GetPrinters)
        (new_events label_only_state (snd (print_handler ?env office_request label_only_state)))) = 1"
    "responses (new_events label_only_state (snd (print_handler ?env office_request label_only_state)))
       = [(404, ErrorBody (js ''Selected printer is not available.''))]"
    "MkdTemp \<notin> set (new_events label_only_state
        (snd (print_handler ?env office_request label_only_state)))"
    by simp_all
  have r2: "print_handler calm_env office_request label_only_state
      = (fst (print_handler calm_env office_request label_only_state),
         snd (print_handler calm_env office_request label_only_state))" by simp
  have found: "list_ex (\<lambda>p. name p = trim (js ''Office-Printer''))
      (printers (snd (print_handler calm_env office_request label_only_state)))"
    using run_found by (simp add: run_defs)
  have f: "fetchImpl calm_env \<noteq> None" by (simp add: calm_env_def)
  have cp: "ToString (copies office_request) = Inr (js ''2'')" by (simp add: office_request_def)
  from print_absent_printer_refreshes_once [OF u t ne ab w r2] found f cp
  have c2: "Fetch (trim ?u)
       \<in> set (new_events label_only_state
            (snd (print_handler calm_env office_request label_only_state)))"
    by blast
  from u t ne ab w c found f cp c2 show ?thesis by simp
qed

section \<open>The copies option\<close>

lemma copies_option_iff:
  "copies_option cv = Some v \<longleftrightarrow> cv = Finite v \<and> 0 < v"
  by (auto simp: copies_option_def split: jsnum.splits)

lemma targetPrinter_value_copies [simp]:
  "targetPrinter_value (req\<lparr>copies := c\<rparr>) st = targetPrinter_value req st"
  by (simp add: targetPrinter_value_def)

lemma Number_parseInt_text:
  "ToString c = Inr text \<Longrightarrow> Number_parseInt c = Inr (parseInt text)"
  by (simp add: Number_parseInt_def)

text \<open>
  For a \<open>copies\<close> value that has a string conversion the handler does what the
  specification says: whenever the print capability is called, its \<open>copies\<close> option is
  present exactly when the parsed number is finite and greater than zero, and then it is
  that number; and with any other such value in its place the handler completes the
  same way and sends the same responses.
\<close>

lemma print_copies_of_convertible:
  assumes "print_handler env req st = (r, st')"
    and "ToString (copies req) = Inr text"
  shows "(\<forall>p opts. Print p opts \<in> set (new_events st st') \<longrightarrow>
            (\<forall>v. opt_copies opts = Some v \<longleftrightarrow> parseInt text = Finite v \<and> 0 < v))
    \<and> (\<forall>c text'. ToString c = Inr text' \<longrightarrow>
            fst (print_handler env (req\<lparr>copies := c\<rparr>) st) = r
            \<and> responses (new_events st (snd (print_handler env (req\<lparr>copies := c\<rparr>) st)))
                = responses (new_events st st'))"
proof -
  note n0 = Number_parseInt_text [OF assms(2)]
  have n: "Number_parseInt (copies (req\<lparr>copies := c\<rparr>)) = Inr (parseInt text')"
    if "ToString c = Inr text'" for c text'
    using that by (simp add: Number_parseInt_text)
  from assms(1) show ?thesis
  proof (cases rule: print_handler_cases)
    case no_url
    then show ?thesis
      using print_handler_no_url [of "req\<lparr>copies := c\<rparr>" env st for c]
      by (simp add: new_events_def)
  next
    case (bad_scheme u)
    then show ?thesis
      using print_handler_bad_scheme [of "req\<lparr>copies := c\<rparr>" u env st for c]
      by (simp add: new_events_def)
  next
    case (not_a_string u m)
    have "print_handler env req st = (Some (TypeError (js ''(printerName || settings.selectedPrinter || \"\").trim is not a function'')), st)"
      using print_handler_type_error [of req u st env] not_a_string by simp
    with assms(1) not_a_string show ?thesis
      using print_handler_type_error [of "req\<lparr>copies := c\<rparr>" u st env for c]
      by (simp add: new_events_def)
  next
    case (no_printer u s)
    then show ?thesis
      using print_handler_no_printer [of "req\<lparr>copies := c\<rparr>" u st s env for c]
      by (simp add: new_events_def)
  next
    case (unavailable u s st1)
    from ensurePrinterAvailable_shape [OF unavailable(6)]
    obtain ps' sel evs where st1: "st1 = st\<lparr>printers := ps',
          settings := (settings st)\<lparr>selectedPrinter := sel\<rparr>, trace := trace st @ evs\<rparr>"
      and reg: "\<forall>e \<in> set evs. registry_event e" by blast
    from reg have np: "\<forall>p opts. Print p opts \<notin> set evs" by auto
    from unavailable np st1 show ?thesis
      using print_handler_unavailable [of "req\<lparr>copies := c\<rparr>" u st s env st1 for c]
      by (simp add: new_events_def)
  next
    case (copies_raise u s st1 e)
    with n0 show ?thesis by simp
  next
    case (download_failed u s st1 e st2 cv)
    from ensurePrinterAvailable_shape [OF download_failed(6)]
    obtain ps' sel evs where st1: "st1 = st\<lparr>printers := ps',
          settings := (settings st)\<lparr>selectedPrinter := sel\<rparr>, trace := trace st @ evs\<rparr>"
      and reg: "\<forall>e \<in> set evs. registry_event e" by blast
    from reg have np: "\<forall>p opts. Print p opts \<notin> set evs" by auto
    from downloadPdf_frame [OF download_failed(7)]
    obtain evs2 where tr2: "trace st2 = trace st1 @ evs2"
      and ev2: "set evs2 \<subseteq> {Fetch (trim u), MkdTemp} \<union> {e. \<exists>p b. e = WriteFile p b}" by blast
    from ev2 have np2: "\<forall>p opts. Print p opts \<notin> set evs2" by auto
    have other: "print_handler env (req\<lparr>copies := c\<rparr>) st = (r, st')"
      if "ToString c = Inr text'" for c text'
      using print_handler_download_failed [of "req\<lparr>copies := c\<rparr>" u st s env st1 e st2
          "parseInt text'"] n [OF that] download_failed
      by simp
    from download_failed np np2 st1 tr2 other show ?thesis
      by (simp add: new_events_def)
  next
    case (printed u s st1 task st2 cv)
    from ensurePrinterAvailable_shape [OF printed(6)]
    obtain ps' sel evs where st1: "st1 = st\<lparr>printers := ps',
          settings := (settings st)\<lparr>selectedPrinter := sel\<rparr>, trace := trace st @ evs\<rparr>"
      and reg: "\<forall>e \<in> set evs. registry_event e" by blast
    from reg have np: "\<forall>p opts. Print p opts \<notin> set evs" by auto
    from downloadPdf_frame [OF printed(7)]
    obtain evs2 where tr2: "trace st2 = trace st1 @ evs2"
      and ev2: "set evs2 \<subseteq> {Fetch (trim u), MkdTemp} \<union> {e. \<exists>p b. e = WriteFile p b}" by blast
    from ev2 have np2: "\<forall>p opts. Print p opts \<notin> set evs2" by auto
    from printed(11) n0 have cv: "cv = parseInt text" by simp
    have other: "fst (print_handler env (req\<lparr>copies := c\<rparr>) st) = None
        \<and> responses (new_events st (snd (print_handler env (req\<lparr>copies := c\<rparr>) st)))
            = responses (new_events st st')"
      if "ToString c = Inr text'" for c text'
      using print_handler_printed [of "req\<lparr>copies := c\<rparr>" u st s env st1 task st2
          "parseInt text'"] n [OF that] printed st1 tr2
      by (simp add: new_events_def responses_append)
    from printed np np2 st1 tr2 cv other show ?thesis
      by (auto simp: new_events_def copies_option_iff)
  next
    case (print_rejected u s st1 task st2 e cv)
    from ensurePrinterAvailable_shape [OF print_rejected(6)]
    obtain ps' sel evs where st1: "st1 = st\<lparr>printers := ps',
          settings := (settings st)\<lparr>selectedPrinter := sel\<rparr>, trace := trace st @ evs\<rparr>"
      and reg: "\<forall>e \<in> set evs. registry_event e" by blast
    from reg have np: "\<forall>p opts. Print p opts \<notin> set evs" by auto
    from downloadPdf_frame [OF print_rejected(7)]
    obtain evs2 where tr2: "trace st2 = trace st1 @ evs2"
      and ev2: "set evs2 \<subseteq> {Fetch (trim u), MkdTemp} \<union> {e. \<exists>p b. e = WriteFile p b}" by blast
    from ev2 have np2: "\<forall>p opts. Print p opts \<notin> set evs2" by auto
    from print_rejected(11) n0 have cv: "cv = parseInt text" by simp
    have other: "fst (print_handler env (req\<lparr>copies := c\<rparr>) st) = None
        \<and> responses (new_events st (snd (print_handler env (req\<lparr>copies := c\<rparr>) st)))
            = responses (new_events st st')"
      if "ToString c = Inr text'" for c text'
      using print_handler_print_rejected [of "req\<lparr>copies := c\<rparr>" u st s env st1 task st2 e
          "parseInt text'"] n [OF that] print_rejected st1 tr2
      by (simp add: new_events_def responses_append)
    from print_rejected np np2 st1 tr2 cv other show ?thesis
      by (auto simp: new_events_def copies_option_iff)
  qed
qed

text \<open>
  C7 fails on the code for a \<open>copies\<close> value whose string conversion raises, such as the
  body value \<open>{"toString": 1}\<close>: \<open>Number.parseInt(copies, 10)\<close> stands before the \<open>try\<close>
  block, so the \<open>TypeError\<close> is not caught, the handler's promise rejects after the
  availability check, nothing is printed and the handler sends no response. A value
  that is merely not a number, such as the text \<open>abc\<close>, is ignored as the claim says and
  the request ends with 200.
\<close>

theorem print_unconvertible_copies_rejects:
  "copies broken_copies_request = JObject None
   \<and> ToString (JObject None) = Inl (TypeError (js ''Cannot convert object to primitive value''))
   \<and> print_handler calm_env broken_copies_request idle_state
       = (Some (TypeError (js ''Cannot convert object to primitive value'')), idle_state)
   \<and> responses (new_events idle_state
         (snd (print_handler calm_env broken_copies_request idle_state))) = []
   \<and> fst (print_handler calm_env (office_request\<lparr>copies := JStr (js ''abc'')\<rparr>) idle_state) = None
   \<and> responses (new_events idle_state
         (snd (print_handler calm_env (office_request\<lparr>copies := JStr (js ''abc'')\<rparr>) idle_state)))
       = [(200, PrinterBody (js ''Office-Printer''))]"
  by (simp add: run_defs broken_copies_request_def new_events_def)

theorem print_unconvertible_copies_rejects_witness:
  "fst (print_handler calm_env broken_copies_request idle_state)
     = Some (TypeError (js ''Cannot convert object to primitive value''))
   \<and> snd (print_handler calm_env broken_copies_request idle_state) = idle_state"
  using print_unconvertible_copies_rejects by simp

section \<open>The document fetch\<close>

lemma downloadPdf_write_failed:
  assumes "fetchImpl env = Some (Inr resp)" and "resp_ok resp" and "arrayBuffer resp = Inr buf"
    and "buf \<noteq> []" and "mkdtemp_result env = Inr d" and "writeFile_result env = Some e"
  shows "downloadPdf env u s =
     (Inl e, s\<lparr>fs := (fs s)(d \<mapsto> Map.empty),
               trace := trace s @ [Fetch u, MkdTemp, WriteFile (d, js ''document.pdf'') buf]\<rparr>)"
  using assms by (simp add: downloadPdf_def emit_def Let_def)

lemma cleanup_fs: "fs (cleanup task s) = (fs s)(tempDir task := None)"
  by (simp add: cleanup_def emit_def)

text \<open>
  C4, as amended. The fetch fails with its own error when the runtime has no \<open>fetch\<close>
  function, when the response status is outside 200 to 299, and when the body is empty;
  it also fails, with the error of the capability, when the \<open>fetch\<close> call or the body
  read rejects or when creating the temporary directory or writing the file fails; it
  fails in no other case. On success it returns the path of \<open>document.pdf\<close> in the
  directory the OS created, which then holds that one file, together with a cleanup
  action that removes that directory and nothing else, and that leaves the file system
  as it is when the directory is already missing.
\<close>

theorem downloadPdf_outcome:
  "((\<exists>e. fst (downloadPdf env u st) = Inl e) \<longleftrightarrow>
      \<not> (\<exists>resp buf dir. fetchImpl env = Some (Inr resp) \<and> resp_ok resp
            \<and> arrayBuffer resp = Inr buf \<and> buf \<noteq> []
            \<and> mkdtemp_result env = Inr dir \<and> writeFile_result env = None))
   \<and> (fetchImpl env = None \<longrightarrow>
        fst (downloadPdf env u st)
          = Inl (Error (js ''Fetch API is not available in this version of Electron.'')))
   \<and> (\<forall>resp. fetchImpl env = Some (Inr resp) \<and> \<not> resp_ok resp \<longrightarrow>
        fst (downloadPdf env u st)
          = Inl (Error (js ''Download failed: HTTP '' @ decimal (resp_status resp))))
   \<and> (\<forall>resp. fetchImpl env = Some (Inr resp) \<and> resp_ok resp \<and> arrayBuffer resp = Inr [] \<longrightarrow>
        fst (downloadPdf env u st) = Inl (Error (js ''Downloaded file is empty.'')))
   \<and> (\<forall>e. fetchImpl env = Some (Inl e) \<longrightarrow> fst (downloadPdf env u st) = Inl e)
   \<and> (\<forall>resp e. fetchImpl env = Some (Inr resp) \<and> resp_ok resp \<and> arrayBuffer resp = Inl e \<longrightarrow>
        fst (downloadPdf env u st) = Inl e)
   \<and> (\<forall>resp buf e. fetchImpl env = Some (Inr resp) \<and> resp_ok resp
          \<and> arrayBuffer resp = Inr buf \<and> buf \<noteq> [] \<and> mkdtemp_result env = Inl e \<longrightarrow>
        fst (downloadPdf env u st) = Inl e)
   \<and> (\<forall>resp buf dir e. fetchImpl env = Some (Inr resp) \<and> resp_ok resp
          \<and> arrayBuffer resp = Inr buf \<and> buf \<noteq> [] \<and> mkdtemp_result env = Inr dir
          \<and> writeFile_result env = Some e \<longrightarrow>
        fst (downloadPdf env u st) = Inl e)
   \<and> (\<forall>task st'. downloadPdf env u st = (Inr task, st') \<longrightarrow>
        filePath task = (tempDir task, js ''document.pdf'')
        \<and> mkdtemp_result env = Inr (tempDir task)
        \<and> (\<exists>buf. fs st' (tempDir task) = Some [js ''document.pdf'' \<mapsto> buf])
        \<and> (\<forall>s. fs (cleanup task s) (tempDir task) = None
               \<and> (\<forall>dir. dir \<noteq> tempDir task \<longrightarrow> fs (cleanup task s) dir = fs s dir)
               \<and> (fs s (tempDir task) = None \<longrightarrow> fs (cleanup task s) = fs s)))"
proof -
  obtain d st2 where dl: "downloadPdf env u st = (d, st2)"
    by (cases "downloadPdf env u st")
  from dl show ?thesis
    by (cases rule: downloadPdf_cases) (use dl in \<open>auto simp: cleanup_fs\<close>)
qed

theorem downloadPdf_outcome_witness:
  "fetchImpl (calm_env\<lparr>fetchImpl := None\<rparr>) = None
   \<and> fst (downloadPdf (calm_env\<lparr>fetchImpl := None\<rparr>) (js ''https://example.com/a.pdf'') idle_state)
       = Inl (Error (js ''Fetch API is not available in this version of Electron.''))
   \<and> \<not> resp_ok (FetchResponse 404 (Inr [0x25]))
   \<and> fst (downloadPdf (calm_env\<lparr>fetchImpl := Some (Inr (FetchResponse 404 (Inr [0x25])))\<rparr>)
              (js ''https://example.com/a.pdf'') idle_state)
       = Inl (Error (js ''Download failed: HTTP 404''))
   \<and> resp_ok (FetchResponse 200 (Inr []))
   \<and> fst (downloadPdf (calm_env\<lparr>fetchImpl := Some (Inr (FetchResponse 200 (Inr [])))\<rparr>)
              (js ''https://example.com/a.pdf'') idle_state)
       = Inl (Error (js ''Downloaded file is empty.''))
   \<and> fst (downloadPdf calm_env (js ''https://example.com/a.pdf'') idle_state)
       = Inr \<lparr>filePath = (js ''/tmp/printer-ws-Ab12Cd'', js ''document.pdf''),
              tempDir = js ''/tmp/printer-ws-Ab12Cd''\<rparr>
   \<and> fs (cleanup \<lparr>filePath = (js ''/tmp/printer-ws-Ab12Cd'', js ''document.pdf''),
                   tempDir = js ''/tmp/printer-ws-Ab12Cd''\<rparr>
            (snd (downloadPdf calm_env (js ''https://example.com/a.pdf'') idle_state)))
         (js ''/tmp/printer-ws-Ab12Cd'') = None
   \<and> fs (cleanup \<lparr>filePath = (js ''/tmp/printer-ws-Ab12Cd'', js ''document.pdf''),
                   tempDir = js ''/tmp/printer-ws-Ab12Cd''\<rparr> idle_state) = fs idle_state"
proof -
  let ?u = "js ''https://example.com/a.pdf''"
  let ?task = "\<lparr>filePath = (js ''/tmp/printer-ws-Ab12Cd'', js ''document.pdf''),
                tempDir = js ''/tmp/printer-ws-Ab12Cd''\<rparr>"
  let ?none = "calm_env\<lparr>fetchImpl := None\<rparr>"
  let ?missing = "calm_env\<lparr>fetchImpl := Some (Inr (FetchResponse 404 (Inr [0x25])))\<rparr>"
  let ?blank = "calm_env\<lparr>fetchImpl := Some (Inr (FetchResponse 200 (Inr [])))\<rparr>"
  have d: "decimal 404 = js ''404''" by (simp add: decimal.simps js_def)
  have h: "fetchImpl ?none = None" "\<not> resp_ok (FetchResponse 404 (Inr [0x25]))"
    "resp_ok (FetchResponse 200 (Inr []))"
    "fetchImpl ?missing = Some (Inr (FetchResponse 404 (Inr [0x25])))"
    "fetchImpl ?blank = Some (Inr (FetchResponse 200 (Inr [])))"
    by (simp_all add: resp_ok_def)
  from downloadPdf_outcome [of ?none ?u idle_state] h
  have c1: "fst (downloadPdf ?none ?u idle_state)
       = Inl (Error (js ''Fetch API is not available in this version of Electron.''))"
    by simp
  from downloadPdf_outcome [of ?missing ?u idle_state] h d
  have c2: "fst (downloadPdf ?missing ?u idle_state) = Inl (Error (js ''Download failed: HTTP 404''))"
    by (simp add: js_def)
  from downloadPdf_outcome [of ?blank ?u idle_state] h
  have c3: "fst (downloadPdf ?blank ?u idle_state) = Inl (Error (js ''Downloaded file is empty.''))"
    by simp
  have c7: "fst (downloadPdf calm_env ?u idle_state) = Inr ?task"
    by (simp add: calm_env_def downloadPdf_def resp_ok_def emit_def Let_def)
  then have ok: "downloadPdf calm_env ?u idle_state
      = (Inr ?task, snd (downloadPdf calm_env ?u idle_state))"
    by (metis prod.collapse)
  have empty: "fs idle_state (tempDir ?task) = None" by (simp add: idle_state_def)
  from downloadPdf_outcome [of calm_env ?u idle_state] ok
  have c4: "\<forall>s. fs (cleanup ?task s) (tempDir ?task) = None
               \<and> (fs s (tempDir ?task) = None \<longrightarrow> fs (cleanup ?task s) = fs s)"
    by blast
  from c4 have c5: "fs (cleanup ?task (snd (downloadPdf calm_env ?u idle_state)))
      (js ''/tmp/printer-ws-Ab12Cd'') = None"
    by simp
  from c4 empty have c6: "fs (cleanup ?task idle_state) = fs idle_state" by blast
  from h c1 c2 c3 c5 c6 c7 show ?thesis by simp
qed

text \<open>
  C4 as stated fails in its ``only if'' half: with a working \<open>fetch\<close>, status 200 and a
  non-empty body, the fetch operation still fails when the file cannot be written.
\<close>

theorem downloadPdf_write_failure_counterexample:
  "fetchImpl (calm_env\<lparr>writeFile_result := Some (Error (js ''ENOSPC: no space left on device''))\<rparr>)
     = Some (Inr (FetchResponse 200 (Inr [0x25, 0x50, 0x44, 0x46])))
   \<and> resp_ok (FetchResponse 200 (Inr [0x25, 0x50, 0x44, 0x46]))
   \<and> arrayBuffer (FetchResponse 200 (Inr [0x25, 0x50, 0x44, 0x46]))
       = Inr [0x25, 0x50, 0x44, 0x46]
   \<and> fst (downloadPdf
        (calm_env\<lparr>writeFile_result := Some (Error (js ''ENOSPC: no space left on device''))\<rparr>)
        (js ''https://example.com/a.pdf'') idle_state)
       = Inl (Error (js ''ENOSPC: no space left on device''))"
  by (simp add: example_defs downloadPdf_def resp_ok_def emit_def Let_def)


text \<open>
  C10. When the download has succeeded with a non-empty body and the temporary directory
  has been created, but writing the file fails, the fetch operation fails with the error
  of the write and returns no download task, and the directory stays on disk. A \<open>/print\<close>
  request that got as far as the fetch then never removes it: no removal and no print is
  attempted, the directory still exists when the request completes, and the response is
  500 with the message of the write error.
\<close>

theorem download_write_failure_leaks_directory:
  assumes "fetchImpl env = Some (Inr resp)" and "resp_ok resp" and "arrayBuffer resp = Inr buf"
    and "buf \<noteq> []" and "mkdtemp_result env = Inr d" and "writeFile_result env = Some e"
    and "print_handler env req st = (r, st')"
    and "Fetch u \<in> set (new_events st st')"
  shows "(\<forall>s. fst (downloadPdf env u s) = Inl e
            \<and> fs (snd (downloadPdf env u s)) d = Some Map.empty)
    \<and> fs st' d = Some Map.empty
    \<and> (\<forall>x. Rm x \<notin> set (new_events st st'))
    \<and> (\<forall>p opts. Print p opts \<notin> set (new_events st st'))
    \<and> responses (new_events st st') = [(500, ErrorBody (message e))]"
proof -
  note dl = downloadPdf_write_failed [OF assms(1-6)]
  have first: "\<forall>s. fst (downloadPdf env u s) = Inl e
            \<and> fs (snd (downloadPdf env u s)) d = Some Map.empty"
    by (simp add: dl)
  have rest: "fs st' d = Some Map.empty
    \<and> (\<forall>x. Rm x \<notin> set (new_events st st'))
    \<and> (\<forall>p opts. Print p opts \<notin> set (new_events st st'))
    \<and> responses (new_events st st') = [(500, ErrorBody (message e))]"
    using assms(7)
  proof (cases rule: print_handler_cases)
    case no_url
    with assms(8) show ?thesis by (simp add: new_events_def)
  next
    case (bad_scheme u)
    with assms(8) show ?thesis by (simp add: new_events_def)
  next
    case (not_a_string u m)
    with assms(8) show ?thesis by (simp add: new_events_def)
  next
    case (no_printer u s)
    with assms(8) show ?thesis by (simp add: new_events_def)
  next
    case (unavailable u' s st1)
    from ensurePrinterAvailable_shape [OF unavailable(6)]
    obtain ps' sel evs where st1: "st1 = st\<lparr>printers := ps',
          settings := (settings st)\<lparr>selectedPrinter := sel\<rparr>, trace := trace st @ evs\<rparr>"
      and reg: "\<forall>e \<in> set evs. registry_event e" by blast
    from reg have "\<forall>x. Fetch x \<notin> set evs" by auto
    with st1 unavailable(8) have "Fetch u \<notin> set (new_events st st')"
      by (simp add: new_events_def)
    with assms(8) show ?thesis by simp
  next
    case (copies_raise u' s st1 e')
    from ensurePrinterAvailable_shape [OF copies_raise(6)]
    obtain ps' sel evs where st1: "st1 = st\<lparr>printers := ps',
          settings := (settings st)\<lparr>selectedPrinter := sel\<rparr>, trace := trace st @ evs\<rparr>"
      and reg: "\<forall>e \<in> set evs. registry_event e" by blast
    from reg have "\<forall>x. Fetch x \<notin> set evs" by auto
    with st1 copies_raise(9) have "Fetch u \<notin> set (new_events st st')"
      by (simp add: new_events_def)
    with assms(8) show ?thesis by simp
  next
    case (download_failed u' s st1 e' st2 cv)
    from ensurePrinterAvailable_shape [OF download_failed(6)]
    obtain ps' sel evs where st1: "st1 = st\<lparr>printers := ps',
          settings := (settings st)\<lparr>selectedPrinter := sel\<rparr>, trace := trace st @ evs\<rparr>"
      and reg: "\<forall>e \<in> set evs. registry_event e" by blast
    from reg have nr: "\<forall>x. Rm x \<notin> set evs" and np: "\<forall>p opts. Print p opts \<notin> set evs"
      by auto
    from reg have r0: "responses evs = []" by (rule responses_registry)
    from download_failed(7) downloadPdf_write_failed [OF assms(1-6), of "trim u'" st1]
    have e': "e' = e" and st2: "st2 = st1\<lparr>fs := (fs st1)(d \<mapsto> Map.empty),
               trace := trace st1 @ [Fetch (trim u'), MkdTemp, WriteFile (d, js ''document.pdf'') buf]\<rparr>"
      by simp_all
    from download_failed(9) st1 st2 e' nr np r0 show ?thesis
      by (auto simp: new_events_def responses_append)
  next
    case (printed u' s st1 task st2 cv)
    from printed(7) downloadPdf_write_failed [OF assms(1-6), of "trim u'" st1]
    show ?thesis by simp
  next
    case (print_rejected u' s st1 task st2 e' cv)
    from print_rejected(7) downloadPdf_write_failed [OF assms(1-6), of "trim u'" st1]
    show ?thesis by simp
  qed
  from first rest show ?thesis by blast
qed

theorem download_write_failure_leaks_directory_witness:
  "fetchImpl disk_full_env = Some (Inr (FetchResponse 200 (Inr [0x25, 0x50, 0x44, 0x46])))
   \<and> resp_ok (FetchResponse 200 (Inr [0x25, 0x50, 0x44, 0x46]))
   \<and> arrayBuffer (FetchResponse 200 (Inr [0x25, 0x50, 0x44, 0x46])) = Inr [0x25, 0x50, 0x44, 0x46]
   \<and> mkdtemp_result disk_full_env = Inr (js ''/tmp/printer-ws-Ab12Cd'')
   \<and> writeFile_result disk_full_env = Some (Error (js ''ENOSPC: no space left on device''))
   \<and> Fetch (js ''https://example.com/a.pdf'')
       \<in> set (new_events idle_state (snd (print_handler disk_full_env office_request idle_state)))
   \<and> fs (snd (print_handler disk_full_env office_request idle_state)) (js ''/tmp/printer-ws-Ab12Cd'')
       = Some Map.empty
   \<and> Rm (js ''/tmp/printer-ws-Ab12Cd'')
       \<notin> set (new_events idle_state (snd (print_handler disk_full_env office_request idle_state)))
   \<and> responses (new_events idle_state (snd (print_handler disk_full_env office_request idle_state)))
       = [(500, ErrorBody (js ''ENOSPC: no space left on device''))]"
proof -
  let ?resp = "FetchResponse 200 (Inr [0x25, 0x50, 0x44, 0x46])"
  let ?e = "Error (js ''ENOSPC: no space left on device'')"
  have t0: "trace idle_state = []" by (simp add: idle_state_def)
  have h: "fetchImpl disk_full_env = Some (Inr ?resp)" "resp_ok ?resp"
    "arrayBuffer ?resp = Inr [0x25, 0x50, 0x44, 0x46]" "[0x25, 0x50, 0x44, 0x46] \<noteq> ([] :: bytes)"
    "mkdtemp_result disk_full_env = Inr (js ''/tmp/printer-ws-Ab12Cd'')"
    "writeFile_result disk_full_env = Some ?e"
    by (simp_all add: disk_full_env_def calm_env_def resp_ok_def)
  have r: "print_handler disk_full_env office_request idle_state
      = (fst (print_handler disk_full_env office_request idle_state),
         snd (print_handler disk_full_env office_request idle_state))" by simp
  have f: "Fetch (js ''https://example.com/a.pdf'')
       \<in> set (new_events idle_state (snd (print_handler disk_full_env office_request idle_state)))"
    using run_disk_full by (simp add: new_events_def t0)
  from download_write_failure_leaks_directory [OF h r f]
  have c: "fs (snd (print_handler disk_full_env office_request idle_state)) (js ''/tmp/printer-ws-Ab12Cd'')
       = Some Map.empty"
    "Rm (js ''/tmp/printer-ws-Ab12Cd'')
       \<notin> set (new_events idle_state (snd (print_handler disk_full_env office_request idle_state)))"
    "responses (new_events idle_state (snd (print_handler disk_full_env office_request idle_state)))
       = [(500, ErrorBody (js ''ENOSPC: no space left on device''))]"
    by simp_all
  from h f c show ?thesis by simp
qed

section \<open>Cleanup after the print attempt\<close>

text \<open>
  C1. Whenever a \<open>/print\<close> request has written the fetched document into its temporary
  directory and that write succeeded, so the fetch succeeded, the print submission of
  that file is followed by the recursive removal of the directory, whether the
  submission succeeded (response 200) or failed (response 500), and the directory does
  not exist when the request completes.
\<close>

theorem print_cleanup_after_fetch:
  assumes "print_handler env req st = (r, st')"
    and "WriteFile (d, f) b \<in> set (new_events st st')"
    and "writeFile_result env = None"
  shows "\<exists>pre opts post.
           new_events st st' = pre @ Print (d, f) opts # post
           \<and> Rm d \<in> set post
           \<and> (case print_result env of
                 None \<Rightarrow> Respond 200 (PrinterBody (opt_printer opts)) \<in> set post
               | Some e \<Rightarrow> Respond 500 (ErrorBody (message e)) \<in> set post)
           \<and> (\<forall>p bs. WriteFile p bs \<notin> set post)
           \<and> fs st' d = None"
  using assms(1)
proof (cases rule: print_handler_cases)
  case no_url
  with assms(2) show ?thesis by (simp add: new_events_def)
next
  case (bad_scheme u)
  with assms(2) show ?thesis by (simp add: new_events_def)
next
  case (not_a_string u m)
  with assms(2) show ?thesis by (simp add: new_events_def)
next
  case (no_printer u s)
  with assms(2) show ?thesis by (simp add: new_events_def)
next
  case (unavailable u s st1)
  from ensurePrinterAvailable_shape [OF unavailable(6)]
  obtain ps' sel evs where st1: "st1 = st\<lparr>printers := ps',
        settings := (settings st)\<lparr>selectedPrinter := sel\<rparr>, trace := trace st @ evs\<rparr>"
    and reg: "\<forall>e \<in> set evs. registry_event e" by blast
  from reg have "\<forall>p bs. WriteFile p bs \<notin> set evs" by auto
  with st1 unavailable(8) have "WriteFile (d, f) b \<notin> set (new_events st st')"
    by (simp add: new_events_def)
  with assms(2) show ?thesis by simp
next
  case (copies_raise u s st1 e)
  from ensurePrinterAvailable_shape [OF copies_raise(6)]
  obtain ps' sel evs where st1: "st1 = st\<lparr>printers := ps',
        settings := (settings st)\<lparr>selectedPrinter := sel\<rparr>, trace := trace st @ evs\<rparr>"
    and reg: "\<forall>e \<in> set evs. registry_event e" by blast
  from reg have "\<forall>p bs. WriteFile p bs \<notin> set evs" by auto
  with st1 copies_raise(9) have "WriteFile (d, f) b \<notin> set (new_events st st')"
    by (simp add: new_events_def)
  with assms(2) show ?thesis by simp
next
  case (download_failed u s st1 e st2 cv)
  from ensurePrinterAvailable_shape [OF download_failed(6)]
  obtain ps' sel evs where st1: "st1 = st\<lparr>printers := ps',
        settings := (settings st)\<lparr>selectedPrinter := sel\<rparr>, trace := trace st @ evs\<rparr>"
    and reg: "\<forall>e \<in> set evs. registry_event e" by blast
  from download_failed(7) assms(3) have "\<exists>evs2. trace st2 = trace st1 @ evs2
      \<and> (\<forall>p bs. WriteFile p bs \<notin> set evs2)"
    by (cases rule: downloadPdf_cases) auto
  then obtain evs2 where tr2: "trace st2 = trace st1 @ evs2"
    and nw2: "\<forall>p bs. WriteFile p bs \<notin> set evs2" by blast
  from reg have "\<forall>p bs. WriteFile p bs \<notin> set evs" by auto
  with st1 tr2 nw2 download_failed(9) have "WriteFile (d, f) b \<notin> set (new_events st st')"
    by (simp add: new_events_def)
  with assms(2) show ?thesis by simp
next
  case (printed u s st1 task st2 cv)
  from ensurePrinterAvailable_shape [OF printed(6)]
  obtain ps' sel evs where st1: "st1 = st\<lparr>printers := ps',
        settings := (settings st)\<lparr>selectedPrinter := sel\<rparr>, trace := trace st @ evs\<rparr>"
    and reg: "\<forall>e \<in> set evs. registry_event e" by blast
  from printed(7) obtain dir buf where task: "task = \<lparr>filePath = (dir, js ''document.pdf''), tempDir = dir\<rparr>"
    and st2: "st2 = st1\<lparr>fs := (fs st1)(dir \<mapsto> [js ''document.pdf'' \<mapsto> buf]),
                trace := trace st1 @ [Fetch (trim u), MkdTemp, WriteFile (dir, js ''document.pdf'') buf]\<rparr>"
    by (cases rule: downloadPdf_cases) auto
  let ?opts = "\<lparr>opt_printer = trim s, opt_copies = copies_option cv\<rparr>"
  let ?post = "Respond 200 (PrinterBody (trim s)) #
       (if notificationSupported env
        then [ShowNotification (js ''Sent document to '' @ getPrinterDisplayName st2 (trim s))]
        else []) @ [Rm dir]"
  have ne: "new_events st st' = (evs @ [Fetch (trim u), MkdTemp, WriteFile (dir, js ''document.pdf'') buf])
      @ Print (dir, js ''document.pdf'') ?opts # ?post"
    using printed(10) st1 st2 task by (simp add: new_events_def)
  from reg have "\<forall>p bs. WriteFile p bs \<notin> set evs" by auto
  with assms(2) ne have df: "d = dir" "f = js ''document.pdf''"
    by (auto split: if_splits)
  have "fs st' d = None" using printed(10) task df by simp
  with ne df printed(8) show ?thesis
    by (intro exI [of _ "evs @ [Fetch (trim u), MkdTemp, WriteFile (dir, js ''document.pdf'') buf]"]
        exI [of _ ?opts] exI [of _ ?post]) auto
next
  case (print_rejected u s st1 task st2 e cv)
  from ensurePrinterAvailable_shape [OF print_rejected(6)]
  obtain ps' sel evs where st1: "st1 = st\<lparr>printers := ps',
        settings := (settings st)\<lparr>selectedPrinter := sel\<rparr>, trace := trace st @ evs\<rparr>"
    and reg: "\<forall>e \<in> set evs. registry_event e" by blast
  from print_rejected(7) obtain dir buf where task: "task = \<lparr>filePath = (dir, js ''document.pdf''), tempDir = dir\<rparr>"
    and st2: "st2 = st1\<lparr>fs := (fs st1)(dir \<mapsto> [js ''document.pdf'' \<mapsto> buf]),
                trace := trace st1 @ [Fetch (trim u), MkdTemp, WriteFile (dir, js ''document.pdf'') buf]\<rparr>"
    by (cases rule: downloadPdf_cases) auto
  let ?opts = "\<lparr>opt_printer = trim s, opt_copies = copies_option cv\<rparr>"
  let ?post = "[Rm dir, ConsoleError (js ''Print job failed'') e,
                Respond 500 (ErrorBody (message e))]
       @ (if notificationSupported env
          then [ShowNotification (js ''Print failed: '' @ message e)] else [])"
  have ne: "new_events st st' = (evs @ [Fetch (trim u), MkdTemp, WriteFile (dir, js ''document.pdf'') buf])
      @ Print (dir, js ''document.pdf'') ?opts # ?post"
    using print_rejected(10) st1 st2 task by (simp add: new_events_def)
  from reg have "\<forall>p bs. WriteFile p bs \<notin> set evs" by auto
  with assms(2) ne have df: "d = dir" "f = js ''document.pdf''"
    by (auto split: if_splits)
  have "fs st' d = None" using print_rejected(10) task df by simp
  with ne df print_rejected(8) show ?thesis
    by (intro exI [of _ "evs @ [Fetch (trim u), MkdTemp, WriteFile (dir, js ''document.pdf'') buf]"]
        exI [of _ ?opts] exI [of _ ?post]) auto
qed

theorem print_cleanup_after_fetch_witness:
  "WriteFile (js ''/tmp/printer-ws-Ab12Cd'', js ''document.pdf'') [0x25, 0x50, 0x44, 0x46]
     \<in> set (new_events idle_state (snd (print_handler calm_env office_request idle_state)))
   \<and> writeFile_result calm_env = None \<and> print_result calm_env = None
   \<and> fs (snd (print_handler calm_env office_request idle_state)) (js ''/tmp/printer-ws-Ab12Cd'') = None
   \<and> WriteFile (js ''/tmp/printer-ws-Ab12Cd'', js ''document.pdf'') [0x25, 0x50, 0x44, 0x46]
     \<in> set (new_events idle_state (snd (print_handler offline_env office_request idle_state)))
   \<and> writeFile_result offline_env = None
   \<and> print_result offline_env = Some (Error (js ''Printer offline''))
   \<and> fs (snd (print_handler offline_env office_request idle_state)) (js ''/tmp/printer-ws-Ab12Cd'') = None
   \<and> Rm (js ''/tmp/printer-ws-Ab12Cd'')
     \<in> set (new_events idle_state (snd (print_handler offline_env office_request idle_state)))"
proof -
  let ?d = "js ''/tmp/printer-ws-Ab12Cd''"
  let ?f = "js ''document.pdf''"
  have t0: "trace idle_state = []" by (simp add: idle_state_def)
  have w1: "WriteFile (?d, ?f) [0x25, 0x50, 0x44, 0x46]
     \<in> set (new_events idle_state (snd (print_handler calm_env office_request idle_state)))"
    using run_office by (simp add: new_events_def t0)
  have w2: "WriteFile (?d, ?f) [0x25, 0x50, 0x44, 0x46]
     \<in> set (new_events idle_state (snd (print_handler offline_env office_request idle_state)))"
    using run_offline by (simp add: new_events_def t0)
  have rm: "Rm ?d
     \<in> set (new_events idle_state (snd (print_handler offline_env office_request idle_state)))"
    using run_offline by (simp add: new_events_def t0)
  have e: "writeFile_result calm_env = None" "print_result calm_env = None"
    "writeFile_result offline_env = None"
    "print_result offline_env = Some (Error (js ''Printer offline''))"
    by (simp_all add: calm_env_def offline_env_def)
  have r1: "print_handler calm_env office_request idle_state
      = (fst (print_handler calm_env office_request idle_state),
         snd (print_handler calm_env office_request idle_state))" by simp
  have r2: "print_handler offline_env office_request idle_state
      = (fst (print_handler offline_env office_request idle_state),
         snd (print_handler offline_env office_request idle_state))" by simp
  from print_cleanup_after_fetch [OF r1 w1 e(1)]
  have c1: "fs (snd (print_handler calm_env office_request idle_state)) ?d = None" by blast
  from print_cleanup_after_fetch [OF r2 w2 e(3)]
  have c2: "fs (snd (print_handler offline_env office_request idle_state)) ?d = None" by blast
  from w1 w2 rm e c1 c2 show ?thesis by simp
qed


end
